theory Spec2Isabelle
  imports Complex_Main
begin

section \<open>The extraction orchestrator of pdfminer/high_level.py\<close>

text \<open>
  The module holds two functions, \<^verbatim>\<open>extract_text_to_fp\<close> and \<^verbatim>\<open>extract_text\<close>.
  Both only compose collaborators that live in other modules (PDFResourceManager,
  the converters, TagExtractor, PDFPageInterpreter, PDFPage.get_pages, ImageWriter,
  LAParams). The collaborators are therefore parameters of the model (the record
  \<open>collab\<close>); what the two functions do themselves, in which order they call
  the collaborators and with which arguments, is translated statement by statement.
  Every call of a collaborator is appended to a trace of events; every \<^verbatim>\<open>raise\<close>
  and every exception that a collaborator can throw is a value of the result.
\<close>

subsection \<open>Values, objects and errors\<close>

datatype pyval = PyNone | PyBool bool | PyInt int | PyStr string

text \<open>The dictionary \<^verbatim>\<open>**kwargs\<close> of surplus keyword arguments.\<close>

type_synonym kwargs_dict = "string \<Rightarrow> pyval option"

text \<open>
  A PDFPage object, reduced to the attribute the orchestrator touches (\<^verbatim>\<open>rotate\<close>)
  and what identifies the page and its content.
\<close>

record page =
  pageid :: nat
  rotate_attr :: int
  contents :: string

text \<open>An LAParams object is opaque here: the keyword overrides it was built with.
  \<^verbatim>\<open>LAParams()\<close> is \<open>LAParams []\<close>.\<close>

datatype laparams = LAParams "(string \<times> int) list"

datatype imagewriter = ImageWriter string

datatype rsrcmgr = PDFResourceManager bool

text \<open>File-like objects a device can write to. \<open>StringIO\<close> and \<open>BytesIO\<close> are the
  in-memory sinks of module \<^verbatim>\<open>io\<close>.\<close>

datatype sink = SysStdout | SysStdoutBuffer | StringIO | BytesIO | OtherSink nat

text \<open>The four device classes with the arguments the orchestrator passes to each
  constructor, in the order of the source.\<close>

datatype device =
    TextConverter rsrcmgr sink string "laparams option" "imagewriter option"
  | XMLConverter rsrcmgr sink string "laparams option" "imagewriter option" bool
  | HTMLConverter rsrcmgr sink string real string "laparams option" "imagewriter option"
  | TagExtractor rsrcmgr sink string

datatype interpreter = PDFPageInterpreter rsrcmgr device

text \<open>Exceptions that come out of a collaborator, and the exceptions of the module
  itself: the \<^verbatim>\<open>raise DeprecationWarning\<close> of line 55, the UnboundLocalError that
  Python raises when the local \<^verbatim>\<open>device\<close> is read without having been assigned, and
  the AttributeError of an attribute that an object does not have
  (\<^verbatim>\<open>sys.stdout.buffer\<close> on line 78).\<close>

datatype cerror =
    DecryptionError | PermissionError | ParseError | InterpretError | IOError
  | OtherError string

datatype error =
    DeprecationWarning | UnboundLocalError string | AttributeError string | Raised cerror

text \<open>The generator returned by \<^verbatim>\<open>PDFPage.get_pages\<close>: each \<^verbatim>\<open>next\<close> yields a page,
  ends the iteration, or raises.\<close>

datatype pageseq = StopIteration | Yield page pageseq | Raises cerror

subsection \<open>The trace and the state of a run\<close>

datatype event =
    SetLevelDebug
  | NewImageWriter string
  | NewResourceManager bool
  | NewDevice device
  | NewInterpreter rsrcmgr device
  | GetPages "int list option" int string bool bool
  | Yielded page
  | ProcessPage page
  | DeviceClose
  | OpenFile string
  | NewStringIO sink
  | GetValue
  | CloseSink
  | CloseFile

text \<open>
  \<open>events\<close> is the trace; \<open>heap\<close> holds the page objects the generator has created,
  addressed by their index, as they are now (line 98 assigns to an attribute of such
  an object); \<open>dev\<close> is the state of the device together with its sink, once a
  device exists.
\<close>

record 'd state =
  events :: "event list"
  heap :: "page list"
  dev :: "'d option"

definition init_state :: "'d state" where
  "init_state = \<lparr>events = [], heap = [], dev = None\<rparr>"

definition log_event :: "event \<Rightarrow> 'd state \<Rightarrow> 'd state" where
  "log_event ev st = st\<lparr>events := events st @ [ev]\<rparr>"

subsection \<open>The interpreter and the collaborators\<close>

text \<open>\<^verbatim>\<open>six.PY2\<close>, \<^verbatim>\<open>six.PY3\<close>, \<^verbatim>\<open>sys.version_info > (3, 0)\<close>,
  \<^verbatim>\<open>sys.stdin.encoding\<close>, and whether the object bound to \<^verbatim>\<open>sys.stdout\<close> has an attribute
  \<^verbatim>\<open>buffer\<close> (the interpreter's own text stream has one, a replacement such as an
  \<^verbatim>\<open>io.StringIO\<close> has none).\<close>

record env =
  PY2 :: bool
  PY3 :: bool
  version_gt_3_0 :: bool
  stdin_encoding :: "string option"
  stdout_has_buffer :: bool

text \<open>
  The behaviour of the code outside this module. \<open>'s\<close> is an input stream, \<open>'d\<close>
  the state of a device and its sink.
  \<^item> \<open>decode\<close>: \<^verbatim>\<open>password.decode(encoding)\<close> (Python 2 only);
  \<^item> \<open>imagewriter_new\<close>: the error \<^verbatim>\<open>ImageWriter(output_dir)\<close> raises, if any;
  \<^item> \<open>rm_caching_default\<close>: the default of the parameter \<^verbatim>\<open>caching\<close> of
    PDFResourceManager, used when the argument is omitted;
  \<^item> \<open>tc_imagewriter_default\<close>: the default of the parameter \<^verbatim>\<open>imagewriter\<close> of
    TextConverter;
  \<^item> \<open>device_new\<close>: the state a device constructor leaves (a constructor may write a
    header), or its error;
  \<^item> \<open>get_pages\<close>: \<^verbatim>\<open>PDFPage.get_pages(fp, pagenos, maxpages, password, caching,
    check_extractable)\<close>;
  \<^item> \<open>process_page\<close>, \<open>device_close\<close>: one call, from a device state to the next, or
    an error;
  \<^item> \<open>sink_value\<close>: what the sink of the device holds (\<^verbatim>\<open>getvalue()\<close>);
  \<^item> \<open>open_file\<close>: \<^verbatim>\<open>open(pdf_file, "rb")\<close>.
\<close>

record ('s, 'd) collab =
  decode :: "string \<Rightarrow> string \<Rightarrow> cerror + string"
  imagewriter_new :: "string \<Rightarrow> cerror option"
  rm_caching_default :: bool
  tc_imagewriter_default :: "imagewriter option"
  device_new :: "device \<Rightarrow> cerror + 'd"
  get_pages :: "'s \<Rightarrow> int list option \<Rightarrow> int \<Rightarrow> string \<Rightarrow> bool \<Rightarrow> bool \<Rightarrow> pageseq"
  process_page :: "interpreter \<Rightarrow> 'd \<Rightarrow> page \<Rightarrow> cerror + 'd"
  device_close :: "device \<Rightarrow> 'd \<Rightarrow> cerror + 'd"
  sink_value :: "'d \<Rightarrow> string"
  open_file :: "string \<Rightarrow> cerror + 's"

subsection \<open>extract_text_to_fp\<close>

record 's fp_args =
  inf_arg :: 's
  outfp :: sink
  output_type :: string
  codec :: string
  laparams :: "laparams option"
  maxpages :: int
  page_numbers :: "int list option"
  password :: string
  scale_arg :: real
  rotation :: int
  layoutmode :: string
  output_dir :: "string option"
  strip_control :: bool
  debug :: bool
  disable_caching :: bool
  kwargs :: kwargs_dict

text \<open>
  Line 54, \<^verbatim>\<open>if '_py2_no_more_posargs' in kwargs is not None\<close>. Python chains the two
  comparisons: \<^verbatim>\<open>('_py2_no_more_posargs' in kwargs) and (kwargs is not None)\<close>. \<^verbatim>\<open>kwargs\<close>
  is always a dictionary, so the second operand is true.
\<close>

definition kwargs_is_not_None :: "kwargs_dict \<Rightarrow> bool" where
  "kwargs_is_not_None kw = True"

definition legacy_keyword_given :: "kwargs_dict \<Rightarrow> bool" where
  "legacy_keyword_given kw =
     (kw ''_py2_no_more_posargs'' \<noteq> None \<and> kwargs_is_not_None kw)"

text \<open>Lines 64-65: under Python 2, with a non-empty \<^verbatim>\<open>sys.stdin.encoding\<close>, the
  password is decoded.\<close>

definition effective_password ::
  "('s, 'd) collab \<Rightarrow> env \<Rightarrow> string \<Rightarrow> cerror + string" where
  "effective_password c en pw =
     (case stdin_encoding en of
        None \<Rightarrow> Inr pw
      | Some enc \<Rightarrow> if PY2 en \<and> enc \<noteq> [] then decode c pw enc else Inr pw)"

text \<open>Lines 67-69: \<^verbatim>\<open>if output_dir:\<close> is false for None and for the empty string.\<close>

definition make_imagewriter ::
  "('s, 'd) collab \<Rightarrow> string option \<Rightarrow> 'd state \<Rightarrow> (error + imagewriter option) \<times> 'd state" where
  "make_imagewriter c od st =
     (case od of
        None \<Rightarrow> (Inr None, st)
      | Some dir \<Rightarrow>
          if dir = [] then (Inr None, st)
          else (case imagewriter_new c dir of
                  Some e \<Rightarrow> (Inl (Raised e), log_event (NewImageWriter dir) st)
                | None \<Rightarrow> (Inr (Some (ImageWriter dir)), log_event (NewImageWriter dir) st)))"

text \<open>A call of a device constructor: the device and its first state, or the error.\<close>

definition construct_device ::
  "('s, 'd) collab \<Rightarrow> device \<Rightarrow> 'd state \<Rightarrow> (error + device \<times> 'd) \<times> 'd state" where
  "construct_device c dv st =
     (case device_new c dv of
        Inl e \<Rightarrow> (Inl (Raised e), log_event (NewDevice dv) st)
      | Inr d \<Rightarrow> (Inr (dv, d), (log_event (NewDevice dv) st)\<lparr>dev := Some d\<rparr>))"

text \<open>The assignment \<^verbatim>\<open>device = ...\<close> of a constructor's result to the local variable.\<close>

definition assign_device ::
  "(error + device \<times> 'd) \<times> 'd state \<Rightarrow> (error + (device \<times> 'd) option) \<times> 'd state" where
  "assign_device r =
     (case r of (Inl e, st) \<Rightarrow> (Inl e, st) | (Inr x, st) \<Rightarrow> (Inr (Some x), st))"

text \<open>
  Lines 73-89. The result is the local variable \<^verbatim>\<open>device\<close>: \<open>None\<close> while it is
  unbound. The text device is built with the caller's \<^verbatim>\<open>outfp\<close>; lines 77-78 rebind
  \<^verbatim>\<open>outfp\<close> only afterwards, for the three other devices, and for every output type
  they read \<^verbatim>\<open>sys.stdout.buffer\<close> when \<^verbatim>\<open>outfp\<close> is \<^verbatim>\<open>sys.stdout\<close> under Python 3, which
  raises AttributeError when there is no such attribute. The chain
  \<^verbatim>\<open>if ... elif ... elif\<close> has no \<^verbatim>\<open>else\<close>.
\<close>

definition select_device ::
  "('s, 'd) collab \<Rightarrow> env \<Rightarrow> 's fp_args \<Rightarrow> rsrcmgr \<Rightarrow> imagewriter option \<Rightarrow> 'd state
     \<Rightarrow> (error + (device \<times> 'd) option) \<times> 'd state" where
  "select_device c en a rm iw st =
     (case (if output_type a = ''text''
            then assign_device (construct_device c (TextConverter rm (outfp a) (codec a) (laparams a) iw) st)
            else (Inr None, st)) of
        (Inl e, st1) \<Rightarrow> (Inl e, st1)
      | (Inr device1, st1) \<Rightarrow>
          if PY3 en \<and> outfp a = SysStdout \<and> \<not> stdout_has_buffer en
          then (Inl (AttributeError ''buffer''), st1)
          else
          (let outfp2 = (if PY3 en \<and> outfp a = SysStdout then SysStdoutBuffer else outfp a)
           in if output_type a = ''xml''
              then assign_device
                     (construct_device c (XMLConverter rm outfp2 (codec a) (laparams a) iw (strip_control a)) st1)
              else if output_type a = ''html''
              then assign_device
                     (construct_device c (HTMLConverter rm outfp2 (codec a) (scale_arg a) (layoutmode a)
                                     (laparams a) iw) st1)
              else if output_type a = ''tag''
              then assign_device (construct_device c (TagExtractor rm outfp2 (codec a)) st1)
              else (Inr device1, st1)))"

text \<open>
  Lines 92-99, the loop over the generator. Each \<^verbatim>\<open>next\<close> that yields creates a page
  object (a new cell of the heap); line 98 overwrites its attribute \<^verbatim>\<open>rotate\<close>; line 99
  hands the object to the interpreter. The result is the last device state, or the
  exception that ended the loop.
\<close>

fun fp_loop ::
  "('s, 'd) collab \<Rightarrow> interpreter \<Rightarrow> int \<Rightarrow> pageseq \<Rightarrow> 'd \<Rightarrow> 'd state \<Rightarrow> (error + 'd) \<times> 'd state" where
  "fp_loop c interp rot StopIteration d st = (Inr d, st)"
| "fp_loop c interp rot (Raises e) d st = (Inl (Raised e), st)"
| "fp_loop c interp rot (Yield p rest) d st =
     (let r = length (heap st);
          st1 = (log_event (Yielded p) st)\<lparr>heap := heap st @ [p]\<rparr>;
          st2 = st1\<lparr>heap := (heap st1)[r := (heap st1 ! r)
                   \<lparr>rotate_attr := (rotate_attr (heap st1 ! r) + rot) mod 360\<rparr>]\<rparr>;
          st3 = log_event (ProcessPage (heap st2 ! r)) st2
      in case process_page c interp d (heap st2 ! r) of
           Inl e \<Rightarrow> (Inl (Raised e), st3)
         | Inr d' \<Rightarrow> fp_loop c interp rot rest d' (st3\<lparr>dev := Some d'\<rparr>))"

text \<open>Lines 91-101: the interpreter, the loop and \<^verbatim>\<open>device.close()\<close>. Reading the
  unbound \<^verbatim>\<open>device\<close> on line 91 raises UnboundLocalError.\<close>

definition run_device ::
  "('s, 'd) collab \<Rightarrow> 's fp_args \<Rightarrow> rsrcmgr \<Rightarrow> string \<Rightarrow> (device \<times> 'd) option \<Rightarrow> 'd state
     \<Rightarrow> (error + unit) \<times> 'd state" where
  "run_device c a rm pw device st =
     (case device of
        None \<Rightarrow> (Inl (UnboundLocalError ''device''), st)
      | Some (dv, d0) \<Rightarrow>
          (let st1 = log_event (NewInterpreter rm dv) st;
               st2 = log_event (GetPages (page_numbers a) (maxpages a) pw
                                  (\<not> disable_caching a) True) st1
           in case fp_loop c (PDFPageInterpreter rm dv) (rotation a)
                     (get_pages c (inf_arg a) (page_numbers a) (maxpages a) pw
                        (\<not> disable_caching a) True) d0 st2 of
                (Inl e, st3) \<Rightarrow> (Inl e, st3)
              | (Inr d1, st3) \<Rightarrow>
                  (case device_close c dv d1 of
                     Inl e \<Rightarrow> (Inl (Raised e), log_event DeviceClose st3)
                   | Inr d2 \<Rightarrow> (Inr (), (log_event DeviceClose st3)\<lparr>dev := Some d2\<rparr>))))"

definition extract_text_to_fp ::
  "('s, 'd) collab \<Rightarrow> env \<Rightarrow> 's fp_args \<Rightarrow> (error + unit) \<times> 'd state" where
  "extract_text_to_fp c en a =
     (if legacy_keyword_given (kwargs a) then (Inl DeprecationWarning, init_state)
      else
        (let st1 = (if debug a then log_event SetLevelDebug init_state else init_state)
         in case effective_password c en (password a) of
              Inl e \<Rightarrow> (Inl (Raised e), st1)
            | Inr pw \<Rightarrow>
                (case make_imagewriter c (output_dir a) st1 of
                   (Inl e, st2) \<Rightarrow> (Inl e, st2)
                 | (Inr iw, st2) \<Rightarrow>
                     (let rm = PDFResourceManager (\<not> disable_caching a);
                          st3 = log_event (NewResourceManager (\<not> disable_caching a)) st2
                      in case select_device c en a rm iw st3 of
                           (Inl e, st4) \<Rightarrow> (Inl e, st4)
                         | (Inr device, st4) \<Rightarrow> run_device c a rm pw device st4))))"

subsection \<open>extract_text\<close>

text \<open>Lines 12-15: the name \<^verbatim>\<open>StringIO\<close> is \<^verbatim>\<open>io.StringIO\<close> or, before Python 3,
  \<^verbatim>\<open>io.BytesIO\<close>.\<close>

definition StringIO_class :: "env \<Rightarrow> sink" where
  "StringIO_class en = (if version_gt_3_0 en then StringIO else BytesIO)"

text \<open>Lines 128-136: the loop of \<^verbatim>\<open>extract_text\<close>; it has no assignment to
  \<^verbatim>\<open>page.rotate\<close>.\<close>

fun text_loop ::
  "('s, 'd) collab \<Rightarrow> interpreter \<Rightarrow> pageseq \<Rightarrow> 'd \<Rightarrow> 'd state \<Rightarrow> (error + 'd) \<times> 'd state" where
  "text_loop c interp StopIteration d st = (Inr d, st)"
| "text_loop c interp (Raises e) d st = (Inl (Raised e), st)"
| "text_loop c interp (Yield p rest) d st =
     (let r = length (heap st);
          st1 = (log_event (Yielded p) st)\<lparr>heap := heap st @ [p]\<rparr>;
          st3 = log_event (ProcessPage (heap st1 ! r)) st1
      in case process_page c interp d (heap st1 ! r) of
           Inl e \<Rightarrow> (Inl (Raised e), st3)
         | Inr d' \<Rightarrow> text_loop c interp rest d' (st3\<lparr>dev := Some d'\<rparr>))"

text \<open>Lines 123-138, the body of the \<^verbatim>\<open>with\<close> statement. PDFResourceManager is
  called without arguments, TextConverter without \<^verbatim>\<open>imagewriter\<close>; the value returned
  is read from the sink right after the loop.\<close>

definition text_body ::
  "('s, 'd) collab \<Rightarrow> 's \<Rightarrow> sink \<Rightarrow> string \<Rightarrow> int list option \<Rightarrow> int \<Rightarrow> bool \<Rightarrow> string
     \<Rightarrow> laparams \<Rightarrow> 'd state \<Rightarrow> (error + string) \<times> 'd state" where
  "text_body c fp output_string pw pnos maxp caching cdc la st =
     (let rm = PDFResourceManager (rm_caching_default c);
          st1 = log_event (NewResourceManager (rm_caching_default c)) st
      in case construct_device c (TextConverter rm output_string cdc (Some la)
                             (tc_imagewriter_default c)) st1 of
           (Inl e, st2) \<Rightarrow> (Inl e, st2)
         | (Inr (dv, d0), st2) \<Rightarrow>
             (let st3 = log_event (NewInterpreter rm dv) st2;
                  st4 = log_event (GetPages pnos maxp pw caching True) st3
              in case text_loop c (PDFPageInterpreter rm dv)
                        (get_pages c fp pnos maxp pw caching True) d0 st4 of
                   (Inl e, st5) \<Rightarrow> (Inl e, st5)
                 | (Inr d1, st5) \<Rightarrow> (Inr (sink_value c d1), log_event GetValue st5)))"

text \<open>
  Lines 119-138. The \<^verbatim>\<open>with\<close> statement opens the file, then creates the in-memory
  sink; on every way out of its body it closes the sink and then the file, and lets
  the result or the exception of the body through.
\<close>

definition extract_text ::
  "('s, 'd) collab \<Rightarrow> env \<Rightarrow> string \<Rightarrow> string \<Rightarrow> int list option \<Rightarrow> int \<Rightarrow> bool \<Rightarrow> string
     \<Rightarrow> laparams option \<Rightarrow> (error + string) \<times> 'd state" where
  "extract_text c en pdf_file pw pnos maxp caching cdc la =
     (let la1 = (case la of None \<Rightarrow> LAParams [] | Some l \<Rightarrow> l)
      in case open_file c pdf_file of
           Inl e \<Rightarrow> (Inl (Raised e), log_event (OpenFile pdf_file) init_state)
         | Inr fp \<Rightarrow>
             (let output_string = StringIO_class en;
                  st1 = log_event (NewStringIO output_string)
                          (log_event (OpenFile pdf_file) init_state)
              in case text_body c fp output_string pw pnos maxp caching cdc la1 st1 of
                   (r, st2) \<Rightarrow> (r, log_event CloseFile (log_event CloseSink st2))))"

text \<open>The default values of the parameters of \<^verbatim>\<open>extract_text_to_fp\<close> (lines 28-32), for
  an input stream and a sink.\<close>

definition fp_defaults :: "'s \<Rightarrow> sink \<Rightarrow> 's fp_args" where
  "fp_defaults i out =
     \<lparr>inf_arg = i, outfp = out, output_type = ''text'', codec = ''utf-8'', laparams = None,
      maxpages = 0, page_numbers = None, password = [], scale_arg = 1, rotation = 0,
      layoutmode = ''normal'', output_dir = None, strip_control = False, debug = False,
      disable_caching = False, kwargs = Map.empty\<rparr>"

subsection \<open>Reading a trace\<close>

text \<open>The pages handed to \<^verbatim>\<open>process_page\<close>, and the pages as the generator yielded
  them, in the order of the trace.\<close>

definition interpreted :: "event list \<Rightarrow> page list" where
  "interpreted evs = concat (map (\<lambda>ev. case ev of ProcessPage p \<Rightarrow> [p] | _ \<Rightarrow> []) evs)"

definition yielded :: "event list \<Rightarrow> page list" where
  "yielded evs = concat (map (\<lambda>ev. case ev of Yielded p \<Rightarrow> [p] | _ \<Rightarrow> []) evs)"

text \<open>What a device becomes when the interpreter is handed a list of pages, one call of
  \<^verbatim>\<open>process_page\<close> after the other, up to the first call that raises.\<close>

fun feed :: "('s, 'd) collab \<Rightarrow> interpreter \<Rightarrow> 'd \<Rightarrow> page list \<Rightarrow> cerror + 'd" where
  "feed c interp d [] = Inr d"
| "feed c interp d (p # ps) =
     (case process_page c interp d p of Inl e \<Rightarrow> Inl e | Inr d' \<Rightarrow> feed c interp d' ps)"

text \<open>The trace of lines 61-71 when none of them raises: the debug switch if asked for,
  the ImageWriter if \<^verbatim>\<open>output_dir\<close> is given and not empty, the resource manager.\<close>

definition setup_trace :: "'s fp_args \<Rightarrow> event list" where
  "setup_trace a =
     (if debug a then [SetLevelDebug] else [])
     @ (case output_dir a of
          None \<Rightarrow> []
        | Some dir \<Rightarrow> if dir = [] then [] else [NewImageWriter dir])
     @ [NewResourceManager (\<not> disable_caching a)]"

text \<open>The caching flags of a trace: those the resource managers were constructed with,
  and those passed to \<^verbatim>\<open>get_pages\<close>.\<close>

definition rm_flags :: "event list \<Rightarrow> bool list" where
  "rm_flags evs = concat (map (\<lambda>ev. case ev of NewResourceManager b \<Rightarrow> [b] | _ \<Rightarrow> []) evs)"

definition gp_flags :: "event list \<Rightarrow> bool list" where
  "gp_flags evs =
     concat (map (\<lambda>ev. case ev of GetPages pnos maxp pw b ce \<Rightarrow> [b] | _ \<Rightarrow> []) evs)"

text \<open>All pages of a generator, and the exception it ends with, if any.\<close>

fun seq_pages :: "pageseq \<Rightarrow> page list" where
  "seq_pages StopIteration = []"
| "seq_pages (Raises e) = []"
| "seq_pages (Yield p rest) = p # seq_pages rest"

fun seq_end :: "pageseq \<Rightarrow> cerror option" where
  "seq_end StopIteration = None"
| "seq_end (Raises e) = Some e"
| "seq_end (Yield p rest) = seq_end rest"

subsection \<open>Collaborators as the specification describes them\<close>

text \<open>
  The collaborators live in other modules of pdfminer (pdfpage.py, pdfdocument.py,
  pdfinterp.py, pdfdevice.py, converter.py), outside high_level.py. The definitions of
  this subsection give one concrete set of collaborators, written from the
  specification; the theorems about the orchestrator hold for every \<open>collab\<close>, and
  these definitions serve to run it on concrete inputs.
\<close>

record document =
  doc_pages :: "page list"
  doc_encrypted :: bool
  doc_passwords :: "string list"
  doc_extractable :: bool

fun pages_seq :: "page list \<Rightarrow> pageseq" where
  "pages_seq [] = StopIteration"
| "pages_seq (p # ps) = Yield p (pages_seq ps)"

text \<open>Modelled from the spec: the page selection of the Document Source (section 4.3;
  pdfpage.py is missing). A page-number filter keeps the pages whose ordinal it holds;
  a positive cap stops after that many yielded pages; the order is never changed.\<close>

definition select_pages :: "int list option \<Rightarrow> int \<Rightarrow> page list \<Rightarrow> page list" where
  "select_pages pnos maxp ps =
     (let kept = (case pnos of None \<Rightarrow> ps
                  | Some ns \<Rightarrow> filter (\<lambda>p. int (pageid p) \<in> set ns) ps)
      in if 0 < maxp then take (nat maxp) kept else kept)"

text \<open>Modelled from the spec: the Document Source \<^verbatim>\<open>getPages\<close> (sections 4.1 and 6;
  pdfpage.py, pdfdocument.py and pdfparser.py are missing). It enforces the decryption
  and the permission check before it yields the first page: a wrong password on an
  encrypted document is a DecryptionError, a document that forbids extraction is a
  PermissionError when the check is asked for.\<close>

definition spec_get_pages ::
  "document \<Rightarrow> int list option \<Rightarrow> int \<Rightarrow> string \<Rightarrow> bool \<Rightarrow> bool \<Rightarrow> pageseq" where
  "spec_get_pages doc pnos maxp pw caching check_extractable =
     (if doc_encrypted doc \<and> pw \<notin> set (doc_passwords doc) then Raises DecryptionError
      else if check_extractable \<and> \<not> doc_extractable doc then Raises PermissionError
      else pages_seq (select_pages pnos maxp (doc_pages doc)))"

text \<open>Modelled from the spec: the Output Device (sections 3 and 4.5; converter.py and
  pdfdevice.py are missing), a machine with the two states Open and Closed over the
  text it has written. A page effect is accepted while Open and rejected once Closed;
  \<^verbatim>\<open>close\<close> is the transition from Open to Closed.\<close>

record devstate =
  is_closed :: bool
  written :: string

text \<open>Modelled from the spec: the constructor of an Output Device (converter.py is
  missing); the device starts Open, with nothing written.\<close>

definition spec_device_new :: "device \<Rightarrow> cerror + devstate" where
  "spec_device_new dv = Inr \<lparr>is_closed = False, written = []\<rparr>"

text \<open>Modelled from the spec: \<^verbatim>\<open>processPage\<close> of the Page Interpreter (pdfinterp.py is
  missing), which writes through the device: the text of the page is appended while the
  device is Open.\<close>

definition spec_process_page :: "interpreter \<Rightarrow> devstate \<Rightarrow> page \<Rightarrow> cerror + devstate" where
  "spec_process_page interp d p =
     (if is_closed d then Inl InterpretError else Inr (d\<lparr>written := written d @ contents p\<rparr>))"

text \<open>Modelled from the spec: \<^verbatim>\<open>close\<close> of an Output Device (pdfdevice.py is missing),
  the transition to Closed.\<close>

definition spec_device_close :: "device \<Rightarrow> devstate \<Rightarrow> cerror + devstate" where
  "spec_device_close dv d = Inr (d\<lparr>is_closed := True\<rparr>)"

text \<open>The collaborators together, over a file system \<open>fs\<close>. The two defaults are those
  of pdfminer's signatures: \<^verbatim>\<open>caching=True\<close> and \<^verbatim>\<open>imagewriter=None\<close>.\<close>

definition spec_collab :: "(string \<Rightarrow> cerror + document) \<Rightarrow> (document, devstate) collab" where
  "spec_collab fs =
     \<lparr>decode = (\<lambda>pw enc. Inr pw), imagewriter_new = (\<lambda>dir. None),
      rm_caching_default = True, tc_imagewriter_default = None,
      device_new = spec_device_new, get_pages = spec_get_pages,
      process_page = spec_process_page, device_close = spec_device_close,
      sink_value = written, open_file = fs\<rparr>"

text \<open>The same collaborators with a device that does nothing but keep the pages it is
  handed, as it is handed them; its sink holds their texts.\<close>

definition recording_collab ::
  "(string \<Rightarrow> cerror + document) \<Rightarrow> (document, page list) collab" where
  "recording_collab fs =
     \<lparr>decode = (\<lambda>pw enc. Inr pw), imagewriter_new = (\<lambda>dir. None),
      rm_caching_default = True, tc_imagewriter_default = None,
      device_new = (\<lambda>dv. Inr []), get_pages = spec_get_pages,
      process_page = (\<lambda>interp d p. Inr (d @ [p])), device_close = (\<lambda>dv d. Inr d),
      sink_value = (\<lambda>d. concat (map contents d)), open_file = fs\<rparr>"

text \<open>A Python 3 interpreter, two documents and a file system for the examples.\<close>

definition py3 :: env where
  "py3 = \<lparr>PY2 = False, PY3 = True, version_gt_3_0 = True, stdin_encoding = Some ''utf-8'',
            stdout_has_buffer = True\<rparr>"

definition two_pages :: document where
  "two_pages =
     \<lparr>doc_pages = [\<lparr>pageid = 0, rotate_attr = 0, contents = ''Hello ''\<rparr>,
                   \<lparr>pageid = 1, rotate_attr = 270, contents = ''world''\<rparr>],
      doc_encrypted = False, doc_passwords = [], doc_extractable = True\<rparr>"

definition locked :: document where
  "locked = two_pages\<lparr>doc_encrypted := True, doc_passwords := [''secret'']\<rparr>"

definition files :: "string \<Rightarrow> cerror + document" where
  "files name =
     (if name = ''two.pdf'' then Inr two_pages
      else if name = ''locked.pdf'' then Inr locked
      else Inl IOError)"

section \<open>Properties\<close>

subsection \<open>Traces of the phases of a run\<close>

lemma interpreted_append [simp]: "interpreted (xs @ ys) = interpreted xs @ interpreted ys"
  by (simp add: interpreted_def)

lemma yielded_append [simp]: "yielded (xs @ ys) = yielded xs @ yielded ys"
  by (simp add: yielded_def)

lemma interpreted_Nil [simp]: "interpreted [] = []"
  by (simp add: interpreted_def)

lemma yielded_Nil [simp]: "yielded [] = []"
  by (simp add: yielded_def)

lemma interpreted_Cons:
  "interpreted (ev # evs) = (case ev of ProcessPage p \<Rightarrow> [p] | _ \<Rightarrow> []) @ interpreted evs"
  by (simp add: interpreted_def)

lemma yielded_Cons:
  "yielded (ev # evs) = (case ev of Yielded p \<Rightarrow> [p] | _ \<Rightarrow> []) @ yielded evs"
  by (simp add: yielded_def)

lemma fp_loop_Yield:
  "fp_loop c i rot (Yield p rest) d st =
     (case process_page c i d (p\<lparr>rotate_attr := (rotate_attr p + rot) mod 360\<rparr>) of
        Inl e \<Rightarrow> (Inl (Raised e),
                  \<lparr>events = events st @ [Yielded p,
                                   ProcessPage (p\<lparr>rotate_attr := (rotate_attr p + rot) mod 360\<rparr>)],
                   heap = heap st @ [p\<lparr>rotate_attr := (rotate_attr p + rot) mod 360\<rparr>],
                   dev = dev st\<rparr>)
      | Inr d' \<Rightarrow> fp_loop c i rot rest d'
                  \<lparr>events = events st @ [Yielded p,
                                   ProcessPage (p\<lparr>rotate_attr := (rotate_attr p + rot) mod 360\<rparr>)],
                   heap = heap st @ [p\<lparr>rotate_attr := (rotate_attr p + rot) mod 360\<rparr>],
                   dev = Some d'\<rparr>)"
  by (cases st) (simp add: Let_def log_event_def split: sum.splits)

declare fp_loop.simps(3) [simp del]

lemma fp_loop_trace:
  "fp_loop c i rot s d st = (r, st') \<Longrightarrow>
     \<exists>ext. events st' = events st @ ext
        \<and> set ext \<subseteq> range Yielded \<union> range ProcessPage
        \<and> interpreted ext = map (\<lambda>p. p\<lparr>rotate_attr := (rotate_attr p + rot) mod 360\<rparr>) (yielded ext)
        \<and> heap st' = heap st @ interpreted ext
        \<and> yielded ext = take (length (yielded ext)) (seq_pages s)
        \<and> (\<forall>d'. r = Inr d' \<longrightarrow> yielded ext = seq_pages s \<and> seq_end s = None)"
proof (induction s arbitrary: d st)
  case StopIteration
  then show ?case by auto
next
  case (Yield p rest)
  let ?q = "p\<lparr>rotate_attr := (rotate_attr p + rot) mod 360\<rparr>"
  let ?evs = "events st @ [Yielded p, ProcessPage ?q]"
  show ?case
  proof (cases "process_page c i d ?q")
    case (Inl e)
    with Yield.prems have "st' = \<lparr>events = ?evs, heap = heap st @ [?q], dev = dev st\<rparr>" "r = Inl (Raised e)"
      by (auto simp: fp_loop_Yield)
    then show ?thesis
      by (intro exI[of _ "[Yielded p, ProcessPage ?q]"]) (auto simp: interpreted_Cons yielded_Cons)
  next
    case (Inr d1)
    with Yield.prems have "fp_loop c i rot rest d1 \<lparr>events = ?evs, heap = heap st @ [?q], dev = Some d1\<rparr> = (r, st')"
      by (simp add: fp_loop_Yield)
    from Yield.IH[OF this] obtain ext where
      "events st' = events st @ [Yielded p, ProcessPage ?q] @ ext"
      "set ext \<subseteq> range Yielded \<union> range ProcessPage"
      "interpreted ext = map (\<lambda>p. p\<lparr>rotate_attr := (rotate_attr p + rot) mod 360\<rparr>) (yielded ext)"
      "heap st' = heap st @ [?q] @ interpreted ext"
      "yielded ext = take (length (yielded ext)) (seq_pages rest)"
      "\<forall>d'. r = Inr d' \<longrightarrow> yielded ext = seq_pages rest \<and> seq_end rest = None"
      by auto
    then show ?thesis
      by (intro exI[of _ "[Yielded p, ProcessPage ?q] @ ext"]) (auto simp: interpreted_Cons yielded_Cons)
  qed
next
  case (Raises e)
  then show ?case by auto
qed

lemma fp_loop_feed:
  "fp_loop c i rot s d st = (r, st') \<Longrightarrow> dev st = Some d \<Longrightarrow>
     \<exists>ext. events st' = events st @ ext
        \<and> set ext \<subseteq> range Yielded \<union> range ProcessPage
        \<and> interpreted ext = map (\<lambda>p. p\<lparr>rotate_attr := (rotate_attr p + rot) mod 360\<rparr>) (yielded ext)
        \<and> heap st' = heap st @ interpreted ext
        \<and> (case feed c i d (interpreted ext) of
              Inl ce \<Rightarrow> r = Inl (Raised ce)
            | Inr d' \<Rightarrow> dev st' = Some d' \<and> yielded ext = seq_pages s
                        \<and> (case seq_end s of None \<Rightarrow> r = Inr d'
                            | Some ce \<Rightarrow> r = Inl (Raised ce)))"
proof (induction s arbitrary: d st)
  case StopIteration
  then show ?case by auto
next
  case (Yield p rest)
  let ?q = "p\<lparr>rotate_attr := (rotate_attr p + rot) mod 360\<rparr>"
  let ?evs = "events st @ [Yielded p, ProcessPage ?q]"
  show ?case
  proof (cases "process_page c i d ?q")
    case (Inl e)
    with Yield.prems have "st' = \<lparr>events = ?evs, heap = heap st @ [?q], dev = dev st\<rparr>" "r = Inl (Raised e)"
      by (auto simp: fp_loop_Yield)
    with Inl show ?thesis
      by (intro exI[of _ "[Yielded p, ProcessPage ?q]"]) (auto simp: interpreted_Cons yielded_Cons)
  next
    case (Inr d1)
    with Yield.prems have "fp_loop c i rot rest d1 \<lparr>events = ?evs, heap = heap st @ [?q], dev = Some d1\<rparr> = (r, st')"
      by (simp add: fp_loop_Yield)
    from Yield.IH[OF this] obtain ext where ext:
      "events st' = events st @ [Yielded p, ProcessPage ?q] @ ext"
      "set ext \<subseteq> range Yielded \<union> range ProcessPage"
      "interpreted ext = map (\<lambda>p. p\<lparr>rotate_attr := (rotate_attr p + rot) mod 360\<rparr>) (yielded ext)"
      "heap st' = heap st @ [?q] @ interpreted ext"
      "case feed c i d1 (interpreted ext) of
              Inl ce \<Rightarrow> r = Inl (Raised ce)
            | Inr d' \<Rightarrow> dev st' = Some d' \<and> yielded ext = seq_pages rest
                        \<and> (case seq_end rest of None \<Rightarrow> r = Inr d'
                            | Some ce \<Rightarrow> r = Inl (Raised ce))"
      by auto
    have feed: "feed c i d (?q # interpreted ext) = feed c i d1 (interpreted ext)"
      using Inr by simp
    show ?thesis
    proof (intro exI[of _ "[Yielded p, ProcessPage ?q] @ ext"] conjI)
      show "case feed c i d (interpreted ([Yielded p, ProcessPage ?q] @ ext)) of
              Inl ce \<Rightarrow> r = Inl (Raised ce)
            | Inr d' \<Rightarrow> dev st' = Some d'
                        \<and> yielded ([Yielded p, ProcessPage ?q] @ ext) = seq_pages (Yield p rest)
                        \<and> (case seq_end (Yield p rest) of None \<Rightarrow> r = Inr d'
                            | Some ce \<Rightarrow> r = Inl (Raised ce))"
        using ext(5) feed by (auto simp: interpreted_Cons yielded_Cons split: sum.splits)
    qed (use ext in \<open>auto simp: interpreted_Cons yielded_Cons\<close>)
  qed
next
  case (Raises e)
  then show ?case by auto
qed

lemma setup_trace_quiet:
  "interpreted (setup_trace a) = [] \<and> yielded (setup_trace a) = []
   \<and> DeviceClose \<notin> set (setup_trace a)
   \<and> set (setup_trace a) \<subseteq> {SetLevelDebug, NewResourceManager (\<not> disable_caching a)}
                              \<union> range NewImageWriter
   \<and> setup_trace a \<noteq> [] \<and> last (setup_trace a) = NewResourceManager (\<not> disable_caching a)"
  by (auto simp: setup_trace_def interpreted_def yielded_def split: option.splits)

lemma make_imagewriter_cases:
  "make_imagewriter c od st = (r, st') \<Longrightarrow>
     heap st' = heap st \<and> dev st' = dev st
     \<and> events st' = events st @ (case od of None \<Rightarrow> []
                                 | Some dir \<Rightarrow> if dir = [] then [] else [NewImageWriter dir])
     \<and> (case r of
           Inl e \<Rightarrow> (\<exists>ce dir. od = Some dir \<and> dir \<noteq> [] \<and> imagewriter_new c dir = Some ce
                        \<and> e = Raised ce)
         | Inr iw \<Rightarrow> (case od of None \<Rightarrow> True
                      | Some dir \<Rightarrow> dir = [] \<or> imagewriter_new c dir = None))"
  by (auto simp: make_imagewriter_def log_event_def split: option.splits if_splits)

lemma assign_device_eq:
  "assign_device (construct_device c dv st) = (r, st') \<Longrightarrow>
     heap st' = heap st \<and> events st' = events st @ [NewDevice dv] \<and>
     (case r of Inl e \<Rightarrow> (\<exists>ce. e = Raised ce \<and> device_new c dv = Inl ce)
      | Inr x \<Rightarrow> (\<exists>d. x = Some (dv, d) \<and> device_new c dv = Inr d \<and> dev st' = Some d))"
  by (auto simp: assign_device_def construct_device_def log_event_def split: sum.splits)

lemma select_device_cases:
  "select_device c en a rm iw st = (r, st') \<Longrightarrow>
     heap st' = heap st \<and>
     (\<exists>devs. events st' = events st @ devs \<and> set devs \<subseteq> range NewDevice
        \<and> (case r of
              Inl e \<Rightarrow>
                (e = AttributeError ''buffer'' \<and> PY3 en \<and> outfp a = SysStdout
                   \<and> \<not> stdout_has_buffer en)
                \<or> (\<exists>ce dv. e = Raised ce \<and> device_new c dv = Inl ce \<and> NewDevice dv \<in> set devs
                      \<and> output_type a \<in> {''text'', ''xml'', ''html'', ''tag''})
            | Inr None \<Rightarrow> output_type a \<notin> {''text'', ''xml'', ''html'', ''tag''} \<and> devs = []
                \<and> \<not> (PY3 en \<and> outfp a = SysStdout \<and> \<not> stdout_has_buffer en)
            | Inr (Some x) \<Rightarrow> devs = [NewDevice (fst x)] \<and> device_new c (fst x) = Inr (snd x)
                \<and> dev st' = Some (snd x)
                \<and> output_type a \<in> {''text'', ''xml'', ''html'', ''tag''}
                \<and> \<not> (PY3 en \<and> outfp a = SysStdout \<and> \<not> stdout_has_buffer en)))"
  unfolding select_device_def Let_def
  by (auto split: if_splits prod.splits sum.splits option.splits dest!: assign_device_eq)

lemma select_device_invalid:
  "output_type a \<notin> {''text'', ''xml'', ''html'', ''tag''} \<Longrightarrow>
     snd (select_device c en a rm iw st) = st"
  by (simp add: select_device_def)

lemma fp_cases [consumes 1, case_names Legacy Early Dispatch Unbound Run]:
  fixes c :: "('s, 'd) collab" and st :: "'d state"
  assumes run: "extract_text_to_fp c en a = (r, st)"
  obtains
    (Legacy) "legacy_keyword_given (kwargs a)" "r = Inl DeprecationWarning" "st = init_state"
  | (Early) e where "\<not> legacy_keyword_given (kwargs a)" "r = Inl (Raised e)" "heap st = []"
      "set (events st) \<subseteq> {SetLevelDebug} \<union> range NewImageWriter"
      "effective_password c en (password a) = Inl e
         \<or> (\<exists>dir. output_dir a = Some dir \<and> dir \<noteq> [] \<and> imagewriter_new c dir = Some e)"
  | (Dispatch) e devs where "\<not> legacy_keyword_given (kwargs a)" "r = Inl e" "heap st = []"
      "events st = setup_trace a @ devs" "set devs \<subseteq> range NewDevice"
      "output_type a \<notin> {''text'', ''xml'', ''html'', ''tag''} \<Longrightarrow> devs = []"
      "(e = AttributeError ''buffer'' \<and> PY3 en \<and> outfp a = SysStdout \<and> \<not> stdout_has_buffer en)
         \<or> (\<exists>ce dv. e = Raised ce \<and> device_new c dv = Inl ce \<and> NewDevice dv \<in> set devs
               \<and> output_type a \<in> {''text'', ''xml'', ''html'', ''tag''})"
  | (Unbound) "\<not> legacy_keyword_given (kwargs a)"
      "output_type a \<notin> {''text'', ''xml'', ''html'', ''tag''}"
      "r = Inl (UnboundLocalError ''device'')" "heap st = []" "events st = setup_trace a"
      "\<not> (PY3 en \<and> outfp a = SysStdout \<and> \<not> stdout_has_buffer en)"
  | (Run) pw dv d0 st0 where "\<not> legacy_keyword_given (kwargs a)"
      "effective_password c en (password a) = Inr pw"
      "output_type a \<in> {''text'', ''xml'', ''html'', ''tag''}"
      "events st0 = setup_trace a @ [NewDevice dv]" "heap st0 = []" "dev st0 = Some d0"
      "device_new c dv = Inr d0"
      "run_device c a (PDFResourceManager (\<not> disable_caching a)) pw (Some (dv, d0)) st0 = (r, st)"
proof (cases "legacy_keyword_given (kwargs a)")
  case True
  with run show ?thesis by (intro Legacy) (auto simp: extract_text_to_fp_def)
next
  case nl: False
  define st1 :: "'d state"
    where "st1 = (if debug a then log_event SetLevelDebug init_state else init_state)"
  have st1: "heap st1 = []" "events st1 = (if debug a then [SetLevelDebug] else [])"
    by (auto simp: st1_def log_event_def init_state_def)
  show ?thesis
  proof (cases "effective_password c en (password a)")
    case (Inl e)
    with run nl have "r = Inl (Raised e)" "st = st1"
      by (auto simp: extract_text_to_fp_def st1_def Let_def)
    with st1 nl Inl show ?thesis by (intro Early[of e]) auto
  next
    case pw: (Inr pw)
    obtain r2 st2 where iw: "make_imagewriter c (output_dir a) st1 = (r2, st2)"
      by (cases "make_imagewriter c (output_dir a) st1")
    note iwc = make_imagewriter_cases[OF iw]
    show ?thesis
    proof (cases r2)
      case (Inl e)
      with run nl pw iw have rs: "r = Inl e" "st = st2"
        by (auto simp: extract_text_to_fp_def st1_def Let_def)
      from iwc Inl obtain ce dir where ce: "e = Raised ce" "output_dir a = Some dir" "dir \<noteq> []"
        "imagewriter_new c dir = Some ce" by auto
      have "set (events st2) \<subseteq> {SetLevelDebug} \<union> range NewImageWriter"
        using iwc st1 by (auto split: option.splits if_splits)
      with rs ce nl iwc st1 show ?thesis by (intro Early[of ce]) auto
    next
      case (Inr iwv)
      let ?rm = "PDFResourceManager (\<not> disable_caching a)"
      define st3 where "st3 = log_event (NewResourceManager (\<not> disable_caching a)) st2"
      have st3: "heap st3 = []" "events st3 = setup_trace a"
        using iwc st1 by (auto simp: st3_def log_event_def setup_trace_def)
      obtain r4 st4 where sel: "select_device c en a ?rm iwv st3 = (r4, st4)"
        by (cases "select_device c en a ?rm iwv st3")
      from select_device_cases[OF sel] st3 obtain devs where st4:
        "heap st4 = []" "events st4 = setup_trace a @ devs" "set devs \<subseteq> range NewDevice"
        and r4: "case r4 of
              Inl e \<Rightarrow>
                (e = AttributeError ''buffer'' \<and> PY3 en \<and> outfp a = SysStdout
                   \<and> \<not> stdout_has_buffer en)
                \<or> (\<exists>ce dv. e = Raised ce \<and> device_new c dv = Inl ce \<and> NewDevice dv \<in> set devs
                      \<and> output_type a \<in> {''text'', ''xml'', ''html'', ''tag''})
            | Inr None \<Rightarrow> output_type a \<notin> {''text'', ''xml'', ''html'', ''tag''} \<and> devs = []
                \<and> \<not> (PY3 en \<and> outfp a = SysStdout \<and> \<not> stdout_has_buffer en)
            | Inr (Some x) \<Rightarrow> devs = [NewDevice (fst x)] \<and> device_new c (fst x) = Inr (snd x)
                \<and> dev st4 = Some (snd x)
                \<and> output_type a \<in> {''text'', ''xml'', ''html'', ''tag''}
                \<and> \<not> (PY3 en \<and> outfp a = SysStdout \<and> \<not> stdout_has_buffer en)"
        by auto
      show ?thesis
      proof (cases r4)
        case (Inl e)
        with run nl pw iw Inr sel have rs: "r = Inl e" "st = st4"
          by (auto simp: extract_text_to_fp_def st1_def st3_def Let_def)
        have "devs = []" if "output_type a \<notin> {''text'', ''xml'', ''html'', ''tag''}"
          using select_device_invalid[OF that, of c en ?rm iwv st3] sel st3 st4 by simp
        with r4 Inl rs st4 nl show ?thesis by (intro Dispatch[of e devs]) auto
      next
        case dv: (Inr device)
        with run nl pw iw Inr sel have rd: "run_device c a ?rm pw device st4 = (r, st)"
          by (auto simp: extract_text_to_fp_def st1_def st3_def Let_def)
        show ?thesis
        proof (cases device)
          case None
          with rd have "r = Inl (UnboundLocalError ''device'')" "st = st4"
            by (auto simp: run_device_def)
          with r4 dv None st4 nl show ?thesis by (intro Unbound) auto
        next
          case (Some x)
          obtain dv0 d0 where x: "x = (dv0, d0)" by (cases x)
          from r4 dv Some x st4 rd nl pw show ?thesis
            by (intro Run[of pw st4 dv0 d0]) auto
        qed
      qed
    qed
  qed
qed

lemma run_device_outcome:
  assumes rd: "run_device c a rm pw (Some (dv, d0)) st = (r, st')" and d0: "dev st = Some d0"
  shows "\<exists>ext. events st' = events st @ [NewInterpreter rm dv,
                   GetPages (page_numbers a) (maxpages a) pw (\<not> disable_caching a) True] @ ext
       \<and> interpreted ext =
           map (\<lambda>p. p\<lparr>rotate_attr := (rotate_attr p + rotation a) mod 360\<rparr>) (yielded ext)
       \<and> heap st' = heap st @ interpreted ext
       \<and> set ext \<subseteq> range Yielded \<union> range ProcessPage \<union> {DeviceClose}
       \<and> (case feed c (PDFPageInterpreter rm dv) d0 (interpreted ext) of
            Inl ce \<Rightarrow> r = Inl (Raised ce) \<and> DeviceClose \<notin> set ext
          | Inr d1 \<Rightarrow>
              yielded ext = seq_pages (get_pages c (inf_arg a) (page_numbers a) (maxpages a) pw
                                         (\<not> disable_caching a) True)
              \<and> (case seq_end (get_pages c (inf_arg a) (page_numbers a) (maxpages a) pw
                                 (\<not> disable_caching a) True) of
                    Some ce \<Rightarrow> r = Inl (Raised ce) \<and> dev st' = Some d1 \<and> DeviceClose \<notin> set ext
                  | None \<Rightarrow>
                      ext \<noteq> [] \<and> last ext = DeviceClose \<and> DeviceClose \<notin> set (butlast ext)
                      \<and> (case device_close c dv d1 of
                            Inl ce \<Rightarrow> r = Inl (Raised ce) \<and> dev st' = Some d1
                          | Inr d2 \<Rightarrow> r = Inr () \<and> dev st' = Some d2)))"
proof -
  let ?S = "get_pages c (inf_arg a) (page_numbers a) (maxpages a) pw (\<not> disable_caching a) True"
  let ?I = "PDFPageInterpreter rm dv"
  let ?hd = "[NewInterpreter rm dv, GetPages (page_numbers a) (maxpages a) pw (\<not> disable_caching a) True]"
  let ?st2 = "log_event (GetPages (page_numbers a) (maxpages a) pw (\<not> disable_caching a) True)
               (log_event (NewInterpreter rm dv) st)"
  obtain r1 st3 where loop: "fp_loop c ?I (rotation a) ?S d0 ?st2 = (r1, st3)"
    by (cases "fp_loop c ?I (rotation a) ?S d0 ?st2")
  have "dev ?st2 = Some d0" using d0 by (simp add: log_event_def)
  from fp_loop_feed[OF loop this] obtain ext where ext:
    "events st3 = events st @ ?hd @ ext"
    "set ext \<subseteq> range Yielded \<union> range ProcessPage"
    "interpreted ext = map (\<lambda>p. p\<lparr>rotate_attr := (rotate_attr p + rotation a) mod 360\<rparr>) (yielded ext)"
    "heap st3 = heap st @ interpreted ext"
    and fd: "case feed c ?I d0 (interpreted ext) of
              Inl ce \<Rightarrow> r1 = Inl (Raised ce)
            | Inr d' \<Rightarrow> dev st3 = Some d' \<and> yielded ext = seq_pages ?S
                        \<and> (case seq_end ?S of None \<Rightarrow> r1 = Inr d'
                            | Some ce \<Rightarrow> r1 = Inl (Raised ce))"
    by (auto simp: log_event_def)
  have nc: "DeviceClose \<notin> set ext" using ext(2) by auto
  show ?thesis
  proof (cases r1)
    case (Inl e)
    with rd loop have rs: "r = Inl e" "st' = st3"
      by (auto simp: run_device_def Let_def)
    show ?thesis
      using ext nc fd Inl rs
      by (intro exI[of _ ext]) (auto split: sum.splits option.splits)
  next
    case (Inr d1)
    with fd have f1: "feed c ?I d0 (interpreted ext) = Inr d1" "dev st3 = Some d1"
      "yielded ext = seq_pages ?S" "seq_end ?S = None"
      by (auto split: sum.splits option.splits)
    have ie: "interpreted (ext @ [DeviceClose]) = interpreted ext"
      "yielded (ext @ [DeviceClose]) = yielded ext"
      by (simp_all add: interpreted_Cons yielded_Cons)
    show ?thesis
    proof (cases "device_close c dv d1")
      case cl: (Inl e)
      with rd loop Inr have rs: "r = Inl (Raised e)" "st' = log_event DeviceClose st3"
        by (auto simp: run_device_def Let_def)
      show ?thesis
        using ext nc f1 cl rs ie
        by (intro exI[of _ "ext @ [DeviceClose]"]) (auto simp: log_event_def)
    next
      case cl: (Inr d2)
      with rd loop Inr have rs: "r = Inr ()"
          "st' = (log_event DeviceClose st3)\<lparr>dev := Some d2\<rparr>"
        by (auto simp: run_device_def Let_def)
      show ?thesis
        using ext nc f1 cl rs ie
        by (intro exI[of _ "ext @ [DeviceClose]"]) (auto simp: log_event_def)
    qed
  qed
qed

lemma fp_loop_error:
  "fp_loop c i rot s d st = (Inl e, st') \<Longrightarrow> \<exists>ce. e = Raised ce"
  by (induction s arbitrary: d st) (auto simp: fp_loop_Yield split: sum.splits)

lemma run_device_error:
  "run_device c a rm pw device st = (Inl e, st') \<Longrightarrow>
     e = UnboundLocalError ''device'' \<or> (\<exists>ce. e = Raised ce)"
  by (auto simp: run_device_def Let_def split: option.splits prod.splits sum.splits
           dest: fp_loop_error)

lemma fp_pages:
  fixes c :: "('s, 'd) collab" and st :: "'d state"
  assumes run: "extract_text_to_fp c en a = (r, st)"
  shows "interpreted (events st) =
           map (\<lambda>p. p\<lparr>rotate_attr := (rotate_attr p + rotation a) mod 360\<rparr>) (yielded (events st))
         \<and> heap st = interpreted (events st)
         \<and> DeviceClose \<notin> set (butlast (events st))"
  using run
proof (cases rule: fp_cases)
  case Legacy
  then show ?thesis by (simp add: init_state_def)
next
  case (Early e)
  from Early(4) have "interpreted (events st) = []" "yielded (events st) = []"
    "DeviceClose \<notin> set (events st)"
    by (induction "events st") (auto simp: interpreted_def yielded_def)
  with Early(3) show ?thesis by (auto dest: in_set_butlastD)
next
  case (Dispatch e devs)
  from Dispatch(5) have "interpreted devs = []" "yielded devs = []" "DeviceClose \<notin> set devs"
    by (induction devs) (auto simp: interpreted_Cons yielded_Cons)
  with Dispatch(3,4) setup_trace_quiet[of a] show ?thesis
    by (auto dest: in_set_butlastD)
next
  case Unbound
  with setup_trace_quiet[of a] show ?thesis by (auto dest: in_set_butlastD)
next
  case (Run pw dv d0 st0)
  from run_device_outcome[OF Run(8,6)] obtain ext where ext:
    "events st = events st0 @ [NewInterpreter (PDFResourceManager (\<not> disable_caching a)) dv,
                   GetPages (page_numbers a) (maxpages a) pw (\<not> disable_caching a) True] @ ext"
    "interpreted ext = map (\<lambda>p. p\<lparr>rotate_attr := (rotate_attr p + rotation a) mod 360\<rparr>) (yielded ext)"
    "heap st = heap st0 @ interpreted ext"
    and oc: "case feed c (PDFPageInterpreter (PDFResourceManager (\<not> disable_caching a)) dv) d0
                    (interpreted ext) of
            Inl ce \<Rightarrow> DeviceClose \<notin> set ext
          | Inr d1 \<Rightarrow>
              (case seq_end (get_pages c (inf_arg a) (page_numbers a) (maxpages a) pw
                                 (\<not> disable_caching a) True) of
                    Some ce \<Rightarrow> DeviceClose \<notin> set ext
                  | None \<Rightarrow> DeviceClose \<notin> set (butlast ext))"
    by (fastforce split: sum.splits option.splits)
  from oc have "DeviceClose \<notin> set (butlast ext)"
    by (auto split: sum.splits option.splits dest: in_set_butlastD)
  with ext Run(4,5) setup_trace_quiet[of a] show ?thesis
    by (auto simp: butlast_append interpreted_Cons yielded_Cons dest: in_set_butlastD)
qed

lemma count_close:
  "DeviceClose \<notin> set (butlast evs) \<Longrightarrow>
     count_list evs DeviceClose = (if evs \<noteq> [] \<and> last evs = DeviceClose then 1 else 0)"
proof (cases evs rule: rev_cases)
  case Nil
  then show ?thesis by simp
next
  case (snoc ys y)
  assume "DeviceClose \<notin> set (butlast evs)"
  with snoc have "count_list ys DeviceClose = 0" by (simp add: count_list_0_iff)
  with snoc show ?thesis by simp
qed

lemma fp_run_outcome [consumes 1, case_names NoInterpreter Interpreter]:
  fixes c :: "('s, 'd) collab" and st :: "'d state"
  assumes run: "extract_text_to_fp c en a = (r, st)"
  obtains
    (NoInterpreter) "\<forall>rm dv. NewInterpreter rm dv \<notin> set (events st)"
      "DeviceClose \<notin> set (events st)" "r \<noteq> Inr ()"
  | (Interpreter) pw dv d0 ext where
      "effective_password c en (password a) = Inr pw" "device_new c dv = Inr d0"
      "\<forall>rm' dv'. NewInterpreter rm' dv' \<in> set (events st) \<longrightarrow>
                   rm' = PDFResourceManager (\<not> disable_caching a) \<and> dv' = dv"
      "NewInterpreter (PDFResourceManager (\<not> disable_caching a)) dv \<in> set (events st)"
      "interpreted (events st) = interpreted ext" "yielded (events st) = yielded ext"
      "DeviceClose \<in> set (events st) \<longleftrightarrow> DeviceClose \<in> set ext"
      "interpreted ext =
         map (\<lambda>p. p\<lparr>rotate_attr := (rotate_attr p + rotation a) mod 360\<rparr>) (yielded ext)"
      "case feed c (PDFPageInterpreter (PDFResourceManager (\<not> disable_caching a)) dv) d0
              (interpreted ext) of
            Inl ce \<Rightarrow> r = Inl (Raised ce) \<and> DeviceClose \<notin> set ext
          | Inr d1 \<Rightarrow>
              yielded ext = seq_pages (get_pages c (inf_arg a) (page_numbers a) (maxpages a) pw
                                         (\<not> disable_caching a) True)
              \<and> (case seq_end (get_pages c (inf_arg a) (page_numbers a) (maxpages a) pw
                                 (\<not> disable_caching a) True) of
                    Some ce \<Rightarrow> r = Inl (Raised ce) \<and> dev st = Some d1 \<and> DeviceClose \<notin> set ext
                  | None \<Rightarrow>
                      ext \<noteq> [] \<and> last ext = DeviceClose \<and> DeviceClose \<notin> set (butlast ext)
                      \<and> (case device_close c dv d1 of
                            Inl ce \<Rightarrow> r = Inl (Raised ce) \<and> dev st = Some d1
                          | Inr d2 \<Rightarrow> r = Inr () \<and> dev st = Some d2))"
  using run
proof (cases rule: fp_cases)
  case Legacy
  then show ?thesis by (intro NoInterpreter) (auto simp: init_state_def)
next
  case (Early e)
  from Early(2,4) show ?thesis by (intro NoInterpreter) auto
next
  case (Dispatch e devs)
  from Dispatch(2,4,5,7) setup_trace_quiet[of a] show ?thesis
    by (intro NoInterpreter) auto
next
  case Unbound
  from Unbound(3,5) setup_trace_quiet[of a] show ?thesis
    by (intro NoInterpreter) auto
next
  case (Run pw dv d0 st0)
  let ?rm = "PDFResourceManager (\<not> disable_caching a)"
  let ?S = "get_pages c (inf_arg a) (page_numbers a) (maxpages a) pw (\<not> disable_caching a) True"
  from run_device_outcome[OF Run(8,6)] obtain ext where ext:
    "events st = events st0 @ [NewInterpreter ?rm dv,
                   GetPages (page_numbers a) (maxpages a) pw (\<not> disable_caching a) True] @ ext"
    "interpreted ext = map (\<lambda>p. p\<lparr>rotate_attr := (rotate_attr p + rotation a) mod 360\<rparr>) (yielded ext)"
    "set ext \<subseteq> range Yielded \<union> range ProcessPage \<union> {DeviceClose}"
    and oc: "case feed c (PDFPageInterpreter ?rm dv) d0 (interpreted ext) of
            Inl ce \<Rightarrow> r = Inl (Raised ce) \<and> DeviceClose \<notin> set ext
          | Inr d1 \<Rightarrow>
              yielded ext = seq_pages ?S
              \<and> (case seq_end ?S of
                    Some ce \<Rightarrow> r = Inl (Raised ce) \<and> dev st = Some d1 \<and> DeviceClose \<notin> set ext
                  | None \<Rightarrow>
                      ext \<noteq> [] \<and> last ext = DeviceClose \<and> DeviceClose \<notin> set (butlast ext)
                      \<and> (case device_close c dv d1 of
                            Inl ce \<Rightarrow> r = Inl (Raised ce) \<and> dev st = Some d1
                          | Inr d2 \<Rightarrow> r = Inr () \<and> dev st = Some d2))"
    by blast
  have evs: "events st = setup_trace a @ [NewDevice dv, NewInterpreter ?rm dv,
                   GetPages (page_numbers a) (maxpages a) pw (\<not> disable_caching a) True] @ ext"
    using ext(1) Run(4) by simp
  note q = setup_trace_quiet[of a]
  have only: "\<forall>rm' dv'. NewInterpreter rm' dv' \<in> set (events st) \<longrightarrow> rm' = ?rm \<and> dv' = dv"
    using evs q ext(3) by auto
  have mem: "NewInterpreter ?rm dv \<in> set (events st)" using evs by simp
  have i: "interpreted (events st) = interpreted ext" "yielded (events st) = yielded ext"
    using evs q by (simp_all add: interpreted_Cons yielded_Cons)
  have cl: "DeviceClose \<in> set (events st) \<longleftrightarrow> DeviceClose \<in> set ext"
    using evs q by auto
  from Run(2,7) only mem i cl ext(2) oc show ?thesis
    by (rule Interpreter[of pw dv d0 ext])
qed

lemma last_if_not_butlast: "x \<in> set xs \<Longrightarrow> x \<notin> set (butlast xs) \<Longrightarrow> last xs = x"
  by (cases xs rule: rev_cases) auto

lemma fp_invalid_no_device:
  "output_type a \<notin> {''text'', ''xml'', ''html'', ''tag''} \<Longrightarrow>
     dev (snd (extract_text_to_fp c en a)) = None"
  by (simp add: extract_text_to_fp_def Let_def run_device_def make_imagewriter_def
        select_device_def log_event_def init_state_def
      split: sum.splits option.splits prod.splits)

lemma StringIO_class_not_stdout: "StringIO_class en \<noteq> SysStdout"
  by (simp add: StringIO_class_def)

lemma select_device_tag:
  "output_type a = ''tag'' \<Longrightarrow>
     select_device c en (a\<lparr>laparams := l\<rparr>) rm iw st = select_device c en a rm iw st"
  by (simp add: select_device_def)

lemma run_device_laparams:
  "run_device c (a\<lparr>laparams := l\<rparr>) rm pw device st = run_device c a rm pw device st"
  by (simp add: run_device_def cong: option.case_cong prod.case_cong)

lemma fp_tag_laparams:
  "output_type a = ''tag'' \<Longrightarrow>
     extract_text_to_fp c en (a\<lparr>laparams := l\<rparr>) = extract_text_to_fp c en a"
  by (simp add: extract_text_to_fp_def select_device_tag run_device_laparams Let_def
           cong: sum.case_cong prod.case_cong)

subsection \<open>The loop of extract_text\<close>

lemma text_loop_Yield:
  "text_loop c i (Yield p rest) d st =
     (case process_page c i d p of
        Inl e \<Rightarrow> (Inl (Raised e),
                  \<lparr>events = events st @ [Yielded p, ProcessPage p],
                   heap = heap st @ [p], dev = dev st\<rparr>)
      | Inr d' \<Rightarrow> text_loop c i rest d'
                  \<lparr>events = events st @ [Yielded p, ProcessPage p],
                   heap = heap st @ [p], dev = Some d'\<rparr>)"
  by (cases st) (simp add: Let_def log_event_def split: sum.splits)

declare text_loop.simps(3) [simp del]

lemma rotate_by_zero:
  "0 \<le> rotate_attr p \<Longrightarrow> rotate_attr p < 360 \<Longrightarrow>
     p\<lparr>rotate_attr := (rotate_attr p + 0) mod 360\<rparr> = p"
  by (cases p) simp

lemma loops_agree:
  "\<forall>p \<in> set (seq_pages s). 0 \<le> rotate_attr p \<and> rotate_attr p < 360 \<Longrightarrow>
     fp_loop c i 0 s d st = text_loop c i s d st"
proof (induction s arbitrary: d st)
  case (Yield p rest)
  then have p: "p\<lparr>rotate_attr := (rotate_attr p + 0) mod 360\<rparr> = p"
    by (intro rotate_by_zero) auto
  from Yield.prems have "\<forall>p \<in> set (seq_pages rest). 0 \<le> rotate_attr p \<and> rotate_attr p < 360"
    by simp
  note IH = Yield.IH[OF this]
  show ?case
    unfolding fp_loop_Yield text_loop_Yield p
    by (simp add: IH split: sum.splits)
qed simp_all

lemma text_loop_result:
  "fst (text_loop c i s d st) = fst (text_loop c i s d st')"
proof (induction s arbitrary: d st st')
  case (Yield p rest)
  show ?case
    unfolding text_loop_Yield
    by (cases "process_page c i d p") (simp_all add: Yield.IH[of _ _ "\<lparr>events = events st' @ [Yielded p, ProcessPage p], heap = heap st' @ [p], dev = Some _\<rparr>"])
qed simp_all

lemma text_loop_trace:
  "text_loop c i s d st = (r, st') \<Longrightarrow>
     \<exists>ext. events st' = events st @ ext
        \<and> set ext \<subseteq> range Yielded \<union> range ProcessPage
        \<and> interpreted ext = yielded ext"
proof (induction s arbitrary: d st)
  case StopIteration
  then show ?case by auto
next
  case (Yield p rest)
  let ?evs = "events st @ [Yielded p, ProcessPage p]"
  show ?case
  proof (cases "process_page c i d p")
    case (Inl e)
    with Yield.prems have "st' = \<lparr>events = ?evs, heap = heap st @ [p], dev = dev st\<rparr>"
      by (auto simp: text_loop_Yield)
    then show ?thesis
      by (intro exI[of _ "[Yielded p, ProcessPage p]"]) (auto simp: interpreted_Cons yielded_Cons)
  next
    case (Inr d1)
    with Yield.prems have
      "text_loop c i rest d1 \<lparr>events = ?evs, heap = heap st @ [p], dev = Some d1\<rparr> = (r, st')"
      by (simp add: text_loop_Yield)
    from Yield.IH[OF this] obtain ext where
      "events st' = events st @ [Yielded p, ProcessPage p] @ ext"
      "set ext \<subseteq> range Yielded \<union> range ProcessPage"
      "interpreted ext = yielded ext"
      by auto
    then show ?thesis
      by (intro exI[of _ "[Yielded p, ProcessPage p] @ ext"]) (auto simp: interpreted_Cons yielded_Cons)
  qed
next
  case (Raises e)
  then show ?case by auto
qed

lemma extract_text_never_closes_device:
  "DeviceClose \<notin> set (events (snd (extract_text c en f pw pn mp ca cdc la)))"
proof (cases "open_file c f")
  case (Inl e)
  then show ?thesis by (simp add: extract_text_def log_event_def init_state_def)
next
  case (Inr fp)
  let ?la = "case la of None \<Rightarrow> LAParams [] | Some l \<Rightarrow> l"
  let ?dv = "TextConverter (PDFResourceManager (rm_caching_default c)) (StringIO_class en) cdc
               (Some ?la) (tc_imagewriter_default c)"
  show ?thesis
  proof (cases "device_new c ?dv")
    case (Inl e)
    with Inr show ?thesis
      by (simp add: extract_text_def text_body_def construct_device_def log_event_def
            init_state_def Let_def)
  next
    case d0: (Inr d0)
    let ?st4 = "\<lparr>events = [OpenFile f, NewStringIO (StringIO_class en),
                   NewResourceManager (rm_caching_default c), NewDevice ?dv,
                   NewInterpreter (PDFResourceManager (rm_caching_default c)) ?dv,
                   GetPages pn mp pw ca True], heap = [], dev = Some d0\<rparr>"
    obtain r1 st5 where L: "text_loop c (PDFPageInterpreter (PDFResourceManager (rm_caching_default c)) ?dv)
                 (get_pages c fp pn mp pw ca True) d0 ?st4 = (r1, st5)"
      by (cases "text_loop c (PDFPageInterpreter (PDFResourceManager (rm_caching_default c)) ?dv)
                 (get_pages c fp pn mp pw ca True) d0 ?st4")
    from text_loop_trace[OF L] obtain ext where ext: "events st5 = events ?st4 @ ext"
      "set ext \<subseteq> range Yielded \<union> range ProcessPage" by blast
    then have nc: "DeviceClose \<notin> set (events st5)" by auto
    from Inr d0 L have "events (snd (extract_text c en f pw pn mp ca cdc la)) =
        events st5 @ (case r1 of Inl e \<Rightarrow> [] | Inr d \<Rightarrow> [GetValue]) @ [CloseSink, CloseFile]"
      by (simp add: extract_text_def text_body_def construct_device_def log_event_def
            init_state_def Let_def split: sum.splits)
    with nc show ?thesis by (auto split: sum.splits)
  qed
qed

lemmas run_defs =
  extract_text_to_fp_def extract_text_def text_body_def run_device_def select_device_def
  assign_device_def construct_device_def make_imagewriter_def effective_password_def
  legacy_keyword_given_def kwargs_is_not_None_def StringIO_class_def
  log_event_def init_state_def fp_defaults_def Let_def
  spec_collab_def spec_get_pages_def spec_device_new_def spec_process_page_def
  spec_device_close_def select_pages_def py3_def two_pages_def locked_def files_def
  interpreted_def yielded_def fp_loop_Yield text_loop_Yield

subsection \<open>The legacy keyword\<close>

text \<open>
  Claim C10. A call of \<^verbatim>\<open>extract_text_to_fp\<close> that passes the keyword
  \<^verbatim>\<open>_py2_no_more_posargs\<close>, with any value \<open>v\<close> (\<open>PyNone\<close> included), raises
  DeprecationWarning with an empty trace and an empty state: the debug flag has not been
  looked at (no \<open>SetLevelDebug\<close> even when \<open>debug\<close> is set) and no collaborator has
  been called. A call without the keyword never ends with the module's
  DeprecationWarning (what a collaborator raises is a \<open>Raised\<close> value).
\<close>

theorem legacy_keyword_raises_first:
  "(kwargs a ''_py2_no_more_posargs'' = Some v \<longrightarrow>
      extract_text_to_fp c en a = (Inl DeprecationWarning, init_state))
   \<and> (kwargs a ''_py2_no_more_posargs'' = None \<longrightarrow>
      fst (extract_text_to_fp c en a) \<noteq> Inl DeprecationWarning)"
proof (intro conjI impI)
  assume "kwargs a ''_py2_no_more_posargs'' = Some v"
  then show "extract_text_to_fp c en a = (Inl DeprecationWarning, init_state)"
    by (simp add: extract_text_to_fp_def legacy_keyword_given_def kwargs_is_not_None_def)
next
  assume absent: "kwargs a ''_py2_no_more_posargs'' = None"
  obtain r st where run: "extract_text_to_fp c en a = (r, st)"
    by (cases "extract_text_to_fp c en a")
  from run have "r \<noteq> Inl DeprecationWarning"
  proof (cases rule: fp_cases)
    case Legacy
    with absent show ?thesis by (simp add: legacy_keyword_given_def)
  next
    case (Early e)
    then show ?thesis by simp
  next
    case (Dispatch e devs)
    then show ?thesis by auto
  next
    case Unbound
    then show ?thesis by simp
  next
    case (Run pw dv d0 st0)
    then show ?thesis by (auto dest: run_device_error)
  qed
  with run show "fst (extract_text_to_fp c en a) \<noteq> Inl DeprecationWarning" by simp
qed

theorem legacy_keyword_raises_first_witness:
  "extract_text_to_fp (spec_collab files) py3
     ((fp_defaults two_pages StringIO)
        \<lparr>debug := True, kwargs := [''_py2_no_more_posargs'' \<mapsto> PyNone]\<rparr>)
     = (Inl DeprecationWarning, init_state)
   \<and> fst (extract_text_to_fp (spec_collab files) py3 (fp_defaults two_pages StringIO))
       \<noteq> Inl DeprecationWarning"
  using legacy_keyword_raises_first
          [where a = "(fp_defaults two_pages StringIO)
                        \<lparr>debug := True, kwargs := [''_py2_no_more_posargs'' \<mapsto> PyNone]\<rparr>"
             and v = PyNone and c = "spec_collab files" and en = py3]
        legacy_keyword_raises_first
          [where a = "fp_defaults two_pages StringIO" and c = "spec_collab files" and en = py3]
  by (simp add: fp_defaults_def)

subsection \<open>Rotation\<close>

text \<open>
  Claim C5. In every run of \<^verbatim>\<open>extract_text_to_fp\<close>, the pages handed to the
  interpreter are, one by one and in order, the pages the Document Source yielded with
  the attribute \<^verbatim>\<open>rotate\<close> replaced by \<open>(r + d) mod 360\<close>, where \<open>r\<close> is the rotation
  the page was yielded with and \<open>d\<close> the configured rotation (any integer); every
  rotation the interpreter sees lies in \<open>[0, 360)\<close>. These rotated pages are what
  \<^verbatim>\<open>process_page\<close> of the interpreter receives: the device of the run, constructed as
  \<open>d0\<close>, ends in the state that \<open>feed\<close> computes by calling \<^verbatim>\<open>process_page\<close> on the
  rotated pages in order (followed by \<^verbatim>\<open>close\<close> when the run gets that far), and when
  \<^verbatim>\<open>process_page\<close> raises on one of them the run ends with that exception.
\<close>

theorem effective_rotation:
  fixes c :: "('s, 'd) collab" and st :: "'d state"
  assumes run: "extract_text_to_fp c en a = (r, st)"
  shows "interpreted (events st) =
           map (\<lambda>p. p\<lparr>rotate_attr := (rotate_attr p + rotation a) mod 360\<rparr>) (yielded (events st))
       \<and> (\<forall>q \<in> set (interpreted (events st)). 0 \<le> rotate_attr q \<and> rotate_attr q < 360)
       \<and> (\<forall>rm dv d0. NewInterpreter rm dv \<in> set (events st) \<longrightarrow> device_new c dv = Inr d0 \<longrightarrow>
            (case feed c (PDFPageInterpreter rm dv) d0
                    (map (\<lambda>p. p\<lparr>rotate_attr := (rotate_attr p + rotation a) mod 360\<rparr>)
                       (yielded (events st))) of
               Inl e \<Rightarrow> r = Inl (Raised e)
             | Inr d1 \<Rightarrow> dev st = Some d1
                         \<or> (\<exists>d2. device_close c dv d1 = Inr d2 \<and> dev st = Some d2)))"
proof -
  from fp_pages[OF run] have eq: "interpreted (events st) =
     map (\<lambda>p. p\<lparr>rotate_attr := (rotate_attr p + rotation a) mod 360\<rparr>) (yielded (events st))"
    by (rule conjunct1)
  have rg: "0 \<le> rotate_attr q \<and> rotate_attr q < 360" if "q \<in> set (interpreted (events st))" for q
  proof -
    from that obtain p where "q = p\<lparr>rotate_attr := (rotate_attr p + rotation a) mod 360\<rparr>"
      unfolding eq by auto
    then have "rotate_attr q = (rotate_attr p + rotation a) mod 360" by simp
    then show ?thesis by simp
  qed
  have fd: "case feed c (PDFPageInterpreter rm dv) d0
                    (map (\<lambda>p. p\<lparr>rotate_attr := (rotate_attr p + rotation a) mod 360\<rparr>)
                       (yielded (events st))) of
               Inl e \<Rightarrow> r = Inl (Raised e)
             | Inr d1 \<Rightarrow> dev st = Some d1
                         \<or> (\<exists>d2. device_close c dv d1 = Inr d2 \<and> dev st = Some d2)"
    if mem: "NewInterpreter rm dv \<in> set (events st)" and new: "device_new c dv = Inr d0"
    for rm dv d0
    using run
  proof (cases rule: fp_run_outcome)
    case NoInterpreter
    with mem show ?thesis by simp
  next
    case (Interpreter pw dv' d0' ext)
    from Interpreter(3) mem have same: "rm = PDFResourceManager (\<not> disable_caching a)" "dv = dv'"
      by auto
    with Interpreter(2) new have d0: "d0 = d0'" by simp
    have pages: "map (\<lambda>p. p\<lparr>rotate_attr := (rotate_attr p + rotation a) mod 360\<rparr>)
                   (yielded (events st)) = interpreted ext"
      using Interpreter(6,8) by simp
    from Interpreter(9) show ?thesis
      unfolding pages same d0
      by (auto split: sum.splits option.splits)
  qed
  from eq rg fd show ?thesis by blast
qed

text \<open>A run with the recording collaborators and a rotation of \<open>-100\<close>: the device has
  received the two pages with the rotations 260 and 170.\<close>

theorem effective_rotation_witness:
  "interpreted (events (snd (extract_text_to_fp (recording_collab files) py3
       ((fp_defaults two_pages StringIO)\<lparr>rotation := - 100\<rparr>)))) =
     [\<lparr>pageid = 0, rotate_attr = 260, contents = ''Hello ''\<rparr>,
      \<lparr>pageid = 1, rotate_attr = 170, contents = ''world''\<rparr>]
   \<and> dev (snd (extract_text_to_fp (recording_collab files) py3
       ((fp_defaults two_pages StringIO)\<lparr>rotation := - 100\<rparr>))) =
     Some [\<lparr>pageid = 0, rotate_attr = 260, contents = ''Hello ''\<rparr>,
           \<lparr>pageid = 1, rotate_attr = 170, contents = ''world''\<rparr>]
   \<and> list_all (\<lambda>q. 0 \<le> rotate_attr q \<and> rotate_attr q < 360)
        (interpreted (events (snd (extract_text_to_fp (recording_collab files) py3
           ((fp_defaults two_pages StringIO)\<lparr>rotation := - 100\<rparr>)))))"
  using effective_rotation
          [where c = "recording_collab files" and en = py3
             and a = "(fp_defaults two_pages StringIO)\<lparr>rotation := - 100\<rparr>"
             and r = "fst (extract_text_to_fp (recording_collab files) py3
                        ((fp_defaults two_pages StringIO)\<lparr>rotation := - 100\<rparr>))"
             and st = "snd (extract_text_to_fp (recording_collab files) py3
                        ((fp_defaults two_pages StringIO)\<lparr>rotation := - 100\<rparr>))"]
  by (simp add: run_defs recording_collab_def)

text \<open>
  Claim C6, as stated, fails: line 98 assigns to the attribute of the very object the
  Document Source yielded. With a rotation of 90 the two page objects of the example
  carry 90 and 0 after the run, not the 0 and 270 they were yielded with.
\<close>

theorem page_object_rotation_overwritten:
  "yielded (events (snd (extract_text_to_fp (spec_collab files) py3
       ((fp_defaults two_pages StringIO)\<lparr>rotation := 90\<rparr>)))) =
     [\<lparr>pageid = 0, rotate_attr = 0, contents = ''Hello ''\<rparr>,
      \<lparr>pageid = 1, rotate_attr = 270, contents = ''world''\<rparr>]
   \<and> heap (snd (extract_text_to_fp (spec_collab files) py3
       ((fp_defaults two_pages StringIO)\<lparr>rotation := 90\<rparr>))) =
     [\<lparr>pageid = 0, rotate_attr = 90, contents = ''Hello ''\<rparr>,
      \<lparr>pageid = 1, rotate_attr = 0, contents = ''world''\<rparr>]"
  by (simp add: run_defs)

text \<open>
  Claim C6, amended. After a run of \<^verbatim>\<open>extract_text_to_fp\<close> the page objects created
  by the Document Source are exactly the yielded pages with \<^verbatim>\<open>rotate\<close> overwritten by
  \<open>(r + d) mod 360\<close>: the combined value is stored in the object, and nothing else
  of the object is changed.
\<close>

theorem page_objects_after_run:
  "heap (snd (extract_text_to_fp c en a)) =
     map (\<lambda>p. p\<lparr>rotate_attr := (rotate_attr p + rotation a) mod 360\<rparr>)
       (yielded (events (snd (extract_text_to_fp c en a))))"
proof -
  obtain r st where run: "extract_text_to_fp c en a = (r, st)"
    by (cases "extract_text_to_fp c en a")
  from fp_pages[OF run] run show ?thesis by simp
qed

theorem page_objects_after_run_witness:
  "heap (snd (extract_text_to_fp (spec_collab files) py3
       ((fp_defaults two_pages StringIO)\<lparr>rotation := 450\<rparr>))) =
     [\<lparr>pageid = 0, rotate_attr = 90, contents = ''Hello ''\<rparr>,
      \<lparr>pageid = 1, rotate_attr = 0, contents = ''world''\<rparr>]"
  using page_objects_after_run
          [where c = "spec_collab files" and en = py3
             and a = "(fp_defaults two_pages StringIO)\<lparr>rotation := 450\<rparr>"]
  by (simp add: run_defs)

subsection \<open>The Tag device and the layout parameters\<close>

text \<open>
  Claim C9. Two runs of \<^verbatim>\<open>extract_text_to_fp\<close> with \<^verbatim>\<open>output_type = 'tag'\<close> that differ
  only in \<^verbatim>\<open>laparams\<close> (\<open>None\<close> or any instance) are the same run: the same result, the
  same trace, the same device state and with it the same content of the sink. Line 89
  does not pass \<^verbatim>\<open>laparams\<close> to TagExtractor.
\<close>

theorem tag_ignores_laparams:
  "output_type a = ''tag'' \<Longrightarrow>
     extract_text_to_fp c en (a\<lparr>laparams := l1\<rparr>) = extract_text_to_fp c en (a\<lparr>laparams := l2\<rparr>)"
  by (simp add: fp_tag_laparams)

theorem tag_ignores_laparams_witness:
  "output_type ((fp_defaults two_pages StringIO)\<lparr>output_type := ''tag''\<rparr>) = ''tag''
   \<and> extract_text_to_fp (spec_collab files) py3
        ((fp_defaults two_pages StringIO)\<lparr>output_type := ''tag'', laparams := None\<rparr>)
     = extract_text_to_fp (spec_collab files) py3
        ((fp_defaults two_pages StringIO)
           \<lparr>output_type := ''tag'', laparams := Some (LAParams [(''char_margin'', 3)])\<rparr>)"
  using tag_ignores_laparams
          [where a = "(fp_defaults two_pages StringIO)\<lparr>output_type := ''tag''\<rparr>"
             and c = "spec_collab files" and en = py3
             and ?l1.0 = None and ?l2.0 = "Some (LAParams [(''char_margin'', 3)])"]
  by simp

subsection \<open>Closing the device\<close>

text \<open>
  Claim C3, as stated, fails: \<^verbatim>\<open>device.close()\<close> on line 101 is neither in a
  \<^verbatim>\<open>finally\<close> clause nor in a \<^verbatim>\<open>with\<close> statement. When the interpreter raises on a page,
  the run of \<^verbatim>\<open>extract_text_to_fp\<close> ends with that exception and \<^verbatim>\<open>close\<close> has been
  called zero times.
\<close>

theorem close_skipped_when_page_fails:
  "fst (extract_text_to_fp
          ((spec_collab files)\<lparr>process_page := (\<lambda>interp d p. Inl InterpretError)\<rparr>) py3
          (fp_defaults two_pages StringIO)) = Inl (Raised InterpretError)
   \<and> count_list (events (snd (extract_text_to_fp
          ((spec_collab files)\<lparr>process_page := (\<lambda>interp d p. Inl InterpretError)\<rparr>) py3
          (fp_defaults two_pages StringIO)))) DeviceClose = 0"
  by (simp add: run_defs)

text \<open>
  Claim C3, amended, for \<^verbatim>\<open>extract_text_to_fp\<close> (\<^verbatim>\<open>extract_text\<close> never closes its
  device). \<^verbatim>\<open>close\<close> is called at most once and nothing follows it in the trace; a run
  that completes normally has called it, as its last action. Whenever \<^verbatim>\<open>close\<close> has
  been called, the password was decoded, the Document Source was exhausted without an
  exception, every page it yielded was interpreted (rotated) by \<^verbatim>\<open>process_page\<close>
  without an exception, and \<^verbatim>\<open>device_close\<close> was applied to the device state \<open>d1\<close> that
  these calls produced: the run ends with the device in the state \<^verbatim>\<open>device_close\<close>
  returned, or with the exception \<^verbatim>\<open>device_close\<close> raised. So a run in which the
  Document Source or the interpreter raises has not called \<^verbatim>\<open>close\<close>.
\<close>

theorem close_once_after_pages:
  fixes c :: "('s, 'd) collab" and st :: "'d state"
  assumes run: "extract_text_to_fp c en a = (r, st)"
  shows "count_list (events st) DeviceClose \<le> 1
       \<and> DeviceClose \<notin> set (butlast (events st))
       \<and> (r = Inr () \<longrightarrow>
            count_list (events st) DeviceClose = 1 \<and> last (events st) = DeviceClose)
       \<and> (DeviceClose \<in> set (events st) \<longrightarrow>
            (\<exists>pw rm dv d0 d1.
                effective_password c en (password a) = Inr pw
              \<and> NewInterpreter rm dv \<in> set (events st) \<and> device_new c dv = Inr d0
              \<and> seq_end (get_pages c (inf_arg a) (page_numbers a) (maxpages a) pw
                            (\<not> disable_caching a) True) = None
              \<and> interpreted (events st) =
                  map (\<lambda>p. p\<lparr>rotate_attr := (rotate_attr p + rotation a) mod 360\<rparr>)
                    (seq_pages (get_pages c (inf_arg a) (page_numbers a) (maxpages a) pw
                                  (\<not> disable_caching a) True))
              \<and> feed c (PDFPageInterpreter rm dv) d0 (interpreted (events st)) = Inr d1
              \<and> (case device_close c dv d1 of
                    Inl e \<Rightarrow> r = Inl (Raised e) \<and> dev st = Some d1
                  | Inr d2 \<Rightarrow> r = Inr () \<and> dev st = Some d2)))"
proof -
  from fp_pages[OF run] have nb: "DeviceClose \<notin> set (butlast (events st))" by simp
  note cnt = count_close[OF nb]
  have succ: "DeviceClose \<in> set (events st)" if "r = Inr ()"
    using run
  proof (cases rule: fp_run_outcome)
    case NoInterpreter
    with that show ?thesis by simp
  next
    case (Interpreter pw dv d0 ext)
    from Interpreter(9) that have "ext \<noteq> [] \<and> last ext = DeviceClose"
      by (auto split: sum.splits option.splits)
    then have "DeviceClose \<in> set ext" by (metis last_in_set)
    with Interpreter(7) show ?thesis by simp
  qed
  have closed: "\<exists>pw rm dv d0 d1.
                effective_password c en (password a) = Inr pw
              \<and> NewInterpreter rm dv \<in> set (events st) \<and> device_new c dv = Inr d0
              \<and> seq_end (get_pages c (inf_arg a) (page_numbers a) (maxpages a) pw
                            (\<not> disable_caching a) True) = None
              \<and> interpreted (events st) =
                  map (\<lambda>p. p\<lparr>rotate_attr := (rotate_attr p + rotation a) mod 360\<rparr>)
                    (seq_pages (get_pages c (inf_arg a) (page_numbers a) (maxpages a) pw
                                  (\<not> disable_caching a) True))
              \<and> feed c (PDFPageInterpreter rm dv) d0 (interpreted (events st)) = Inr d1
              \<and> (case device_close c dv d1 of
                    Inl e \<Rightarrow> r = Inl (Raised e) \<and> dev st = Some d1
                  | Inr d2 \<Rightarrow> r = Inr () \<and> dev st = Some d2)"
    if cl: "DeviceClose \<in> set (events st)"
    using run
  proof (cases rule: fp_run_outcome)
    case NoInterpreter
    with cl show ?thesis by simp
  next
    case (Interpreter pw dv d0 ext)
    let ?rm = "PDFResourceManager (\<not> disable_caching a)"
    let ?S = "get_pages c (inf_arg a) (page_numbers a) (maxpages a) pw (\<not> disable_caching a) True"
    from cl Interpreter(7) have c2: "DeviceClose \<in> set ext" by simp
    with Interpreter(9) obtain d1 where d1:
      "feed c (PDFPageInterpreter ?rm dv) d0 (interpreted ext) = Inr d1"
      "yielded ext = seq_pages ?S" "seq_end ?S = None"
      "case device_close c dv d1 of
         Inl ce \<Rightarrow> r = Inl (Raised ce) \<and> dev st = Some d1
       | Inr d2 \<Rightarrow> r = Inr () \<and> dev st = Some d2"
      by (auto split: sum.splits option.splits)
    from Interpreter(1,2,4,5,8) d1 show ?thesis
      by (intro exI[of _ pw] exI[of _ ?rm] exI[of _ dv] exI[of _ d0] exI[of _ d1]) simp
  qed
  have fin: "count_list (events st) DeviceClose = 1 \<and> last (events st) = DeviceClose"
    if "r = Inr ()"
  proof -
    from succ[OF that] have ne: "events st \<noteq> []" by auto
    from succ[OF that] nb have "last (events st) = DeviceClose"
      by (rule last_if_not_butlast)
    with ne cnt show ?thesis by simp
  qed
  have le: "count_list (events st) DeviceClose \<le> 1" using cnt by simp
  from le nb fin closed show ?thesis by blast
qed

theorem close_once_after_pages_witness:
  "fst (extract_text_to_fp (spec_collab files) py3 (fp_defaults two_pages StringIO)) = Inr ()
   \<and> count_list (events (snd (extract_text_to_fp (spec_collab files) py3
                                (fp_defaults two_pages StringIO)))) DeviceClose = 1
   \<and> last (events (snd (extract_text_to_fp (spec_collab files) py3
                                (fp_defaults two_pages StringIO)))) = DeviceClose
   \<and> interpreted (events (snd (extract_text_to_fp (spec_collab files) py3
                                (fp_defaults two_pages StringIO)))) =
       [\<lparr>pageid = 0, rotate_attr = 0, contents = ''Hello ''\<rparr>,
        \<lparr>pageid = 1, rotate_attr = 270, contents = ''world''\<rparr>]
   \<and> dev (snd (extract_text_to_fp (spec_collab files) py3 (fp_defaults two_pages StringIO))) =
       Some \<lparr>is_closed = True, written = ''Hello world''\<rparr>"
  using close_once_after_pages
          [where c = "spec_collab files" and en = py3 and a = "fp_defaults two_pages StringIO"
             and r = "fst (extract_text_to_fp (spec_collab files) py3
                             (fp_defaults two_pages StringIO))"
             and st = "snd (extract_text_to_fp (spec_collab files) py3
                             (fp_defaults two_pages StringIO))"]
  by (simp add: run_defs)

subsection \<open>An output type outside the four\<close>

text \<open>
  Claim C1, as stated, fails: no statement checks \<^verbatim>\<open>output_type\<close>. With
  \<^verbatim>\<open>output_type = 'pdf'\<close> the resource manager is constructed on line 71, no branch of
  lines 73-89 assigns \<^verbatim>\<open>device\<close>, and line 91 raises UnboundLocalError.
\<close>

theorem unknown_variant_builds_rsrcmgr_first:
  "extract_text_to_fp (spec_collab files) py3
     ((fp_defaults two_pages StringIO)\<lparr>output_type := ''pdf''\<rparr>)
   = (Inl (UnboundLocalError ''device''),
      \<lparr>events = [NewResourceManager True], heap = [], dev = None\<rparr>)"
  by (simp add: run_defs)

text \<open>
  Claim C1, amended. A call of \<^verbatim>\<open>extract_text_to_fp\<close> with an output type outside
  \<open>text\<close>, \<open>xml\<close>, \<open>html\<close>, \<open>tag\<close> never completes normally, and it constructs no device and
  no interpreter, never asks for pages and interprets none: its trace holds at most the
  debug switch, the ImageWriter and the resource manager, and there is no device at the
  end. The failure does not come before the collaborators. Unless the call fails
  earlier (the legacy keyword, the decoding of the password, the ImageWriter for the
  given \<^verbatim>\<open>output_dir\<close>), its trace is exactly the debug switch when
  \<^verbatim>\<open>debug\<close> is set, the ImageWriter when \<^verbatim>\<open>output_dir\<close> is set, and then the resource
  manager; and it ends with the UnboundLocalError of line 91, or with the
  AttributeError of line 78 when the sink is \<^verbatim>\<open>sys.stdout\<close> under Python 3 and
  \<^verbatim>\<open>sys.stdout\<close> has no \<^verbatim>\<open>buffer\<close>.
\<close>

theorem unknown_variant_fails_after_rsrcmgr:
  fixes c :: "('s, 'd) collab" and st :: "'d state"
  assumes bad: "output_type a \<notin> {''text'', ''xml'', ''html'', ''tag''}"
      and run: "extract_text_to_fp c en a = (r, st)"
  shows "r \<noteq> Inr ()
       \<and> dev st = None
       \<and> set (events st) \<subseteq> {SetLevelDebug, NewResourceManager (\<not> disable_caching a)}
                              \<union> range NewImageWriter
       \<and> interpreted (events st) = []
       \<and> (\<not> legacy_keyword_given (kwargs a)
            \<longrightarrow> (\<exists>pw. effective_password c en (password a) = Inr pw)
            \<longrightarrow> (case output_dir a of None \<Rightarrow> True
                 | Some dir \<Rightarrow> dir = [] \<or> imagewriter_new c dir = None)
            \<longrightarrow> events st =
                  (if debug a then [SetLevelDebug] else [])
                  @ (case output_dir a of None \<Rightarrow> []
                     | Some dir \<Rightarrow> if dir = [] then [] else [NewImageWriter dir])
                  @ [NewResourceManager (\<not> disable_caching a)]
                \<and> r = Inl (if PY3 en \<and> outfp a = SysStdout \<and> \<not> stdout_has_buffer en
                           then AttributeError ''buffer'' else UnboundLocalError ''device''))"
proof -
  from fp_invalid_no_device[OF bad, of c en] run have nodev: "dev st = None" by simp
  note q = setup_trace_quiet[of a]
  from run have "r \<noteq> Inr ()
       \<and> set (events st) \<subseteq> {SetLevelDebug, NewResourceManager (\<not> disable_caching a)}
                              \<union> range NewImageWriter
       \<and> interpreted (events st) = []
       \<and> (\<not> legacy_keyword_given (kwargs a)
            \<longrightarrow> (\<exists>pw. effective_password c en (password a) = Inr pw)
            \<longrightarrow> (case output_dir a of None \<Rightarrow> True
                 | Some dir \<Rightarrow> dir = [] \<or> imagewriter_new c dir = None)
            \<longrightarrow> events st = setup_trace a
                \<and> r = Inl (if PY3 en \<and> outfp a = SysStdout \<and> \<not> stdout_has_buffer en
                           then AttributeError ''buffer'' else UnboundLocalError ''device''))"
  proof (cases rule: fp_cases)
    case Legacy
    then show ?thesis by (simp add: init_state_def)
  next
    case (Early e)
    from Early(4) have i: "interpreted (events st) = []"
      by (auto simp: interpreted_def split: event.splits)
    from Early(4) have sub: "set (events st) \<subseteq> {SetLevelDebug, NewResourceManager (\<not> disable_caching a)}
                              \<union> range NewImageWriter" by auto
    from Early(5) have "\<not> ((\<exists>pw. effective_password c en (password a) = Inr pw)
            \<and> (case output_dir a of None \<Rightarrow> True
                 | Some dir \<Rightarrow> dir = [] \<or> imagewriter_new c dir = None))"
      by auto
    with Early(2) i sub show ?thesis by blast
  next
    case (Dispatch e devs)
    from Dispatch(6)[OF bad] have d: "devs = []" .
    with Dispatch(7) bad have e: "e = AttributeError ''buffer''"
      "PY3 en \<and> outfp a = SysStdout \<and> \<not> stdout_has_buffer en" by auto
    from Dispatch(2,4) d e q show ?thesis by simp
  next
    case Unbound
    from Unbound(3,5,6) q show ?thesis by auto
  next
    case (Run pw dv d0 st0)
    with bad show ?thesis by simp
  qed
  with nodev show ?thesis by (simp add: setup_trace_def)
qed

theorem unknown_variant_fails_after_rsrcmgr_witness:
  "output_type ((fp_defaults two_pages StringIO)
                  \<lparr>output_type := ''pdf'', output_dir := Some ''imgs'', debug := True\<rparr>)
     \<notin> {''text'', ''xml'', ''html'', ''tag''}
   \<and> extract_text_to_fp (spec_collab files) py3
        ((fp_defaults two_pages StringIO)
           \<lparr>output_type := ''pdf'', output_dir := Some ''imgs'', debug := True\<rparr>) =
       (Inl (UnboundLocalError ''device''),
        \<lparr>events = [SetLevelDebug, NewImageWriter ''imgs'', NewResourceManager True],
         heap = [], dev = None\<rparr>)"
  using unknown_variant_fails_after_rsrcmgr
          [where c = "spec_collab files" and en = py3
             and a = "(fp_defaults two_pages StringIO)
                        \<lparr>output_type := ''pdf'', output_dir := Some ''imgs'', debug := True\<rparr>"
             and r = "fst (extract_text_to_fp (spec_collab files) py3
                        ((fp_defaults two_pages StringIO)
                           \<lparr>output_type := ''pdf'', output_dir := Some ''imgs'', debug := True\<rparr>))"
             and st = "snd (extract_text_to_fp (spec_collab files) py3
                        ((fp_defaults two_pages StringIO)
                           \<lparr>output_type := ''pdf'', output_dir := Some ''imgs'', debug := True\<rparr>))"]
  by (simp add: run_defs)

subsection \<open>The caching flag\<close>

lemma rm_flags_append [simp]: "rm_flags (xs @ ys) = rm_flags xs @ rm_flags ys"
  by (simp add: rm_flags_def)

lemma gp_flags_append [simp]: "gp_flags (xs @ ys) = gp_flags xs @ gp_flags ys"
  by (simp add: gp_flags_def)

lemma rm_flags_Nil [simp]: "rm_flags [] = []"
  by (simp add: rm_flags_def)

lemma gp_flags_Nil [simp]: "gp_flags [] = []"
  by (simp add: gp_flags_def)

lemma rm_flags_Cons:
  "rm_flags (ev # evs) = (case ev of NewResourceManager b \<Rightarrow> [b] | _ \<Rightarrow> []) @ rm_flags evs"
  by (simp add: rm_flags_def)

lemma gp_flags_Cons:
  "gp_flags (ev # evs) =
     (case ev of GetPages pnos maxp pw b ce \<Rightarrow> [b] | _ \<Rightarrow> []) @ gp_flags evs"
  by (simp add: gp_flags_def)

lemma page_events_flags:
  "set ext \<subseteq> range Yielded \<union> range ProcessPage \<Longrightarrow> rm_flags ext = [] \<and> gp_flags ext = []"
  by (induction ext) (auto simp: rm_flags_Cons gp_flags_Cons)

lemma setup_flags:
  "set pre \<subseteq> {SetLevelDebug, NewResourceManager b} \<union> range NewImageWriter \<union> range NewDevice
   \<Longrightarrow> set (rm_flags pre) \<subseteq> {b} \<and> gp_flags pre = []"
  by (induction pre) (auto simp: rm_flags_Cons gp_flags_Cons)

lemma setup_trace_flags:
  "set (rm_flags (setup_trace a @ devs)) \<subseteq> {\<not> disable_caching a}
   \<and> gp_flags (setup_trace a @ devs) = []" if "set devs \<subseteq> range NewDevice"
proof -
  from that setup_trace_quiet[of a] have
    "set (setup_trace a @ devs) \<subseteq> {SetLevelDebug, NewResourceManager (\<not> disable_caching a)}
        \<union> range NewImageWriter \<union> range NewDevice" by auto
  from setup_flags[OF this] show ?thesis .
qed

lemma run_device_flags:
  assumes "run_device c a rm pw device st = (r, st')"
  shows "\<exists>ext. events st' = events st @ ext \<and> rm_flags ext = []
           \<and> set (gp_flags ext) \<subseteq> {\<not> disable_caching a}"
proof (cases device)
  case None
  with assms show ?thesis by (auto simp: run_device_def)
next
  case (Some x)
  obtain dv d0 where x: "x = (dv, d0)" by (cases x)
  let ?S = "get_pages c (inf_arg a) (page_numbers a) (maxpages a) pw (\<not> disable_caching a) True"
  let ?st2 = "log_event (GetPages (page_numbers a) (maxpages a) pw (\<not> disable_caching a) True)
               (log_event (NewInterpreter rm dv) st)"
  let ?hd = "[NewInterpreter rm dv, GetPages (page_numbers a) (maxpages a) pw (\<not> disable_caching a) True]"
  obtain r1 st3 where loop: "fp_loop c (PDFPageInterpreter rm dv) (rotation a) ?S d0 ?st2 = (r1, st3)"
    by (cases "fp_loop c (PDFPageInterpreter rm dv) (rotation a) ?S d0 ?st2")
  from fp_loop_trace[OF loop] obtain ext where ext:
    "events st3 = events st @ ?hd @ ext"
    "set ext \<subseteq> range Yielded \<union> range ProcessPage"
    by (auto simp: log_event_def)
  from page_events_flags[OF ext(2)] have fl: "rm_flags ext = []" "gp_flags ext = []" by auto
  from assms Some x loop have
    "events st' = events st3 \<or> events st' = events st3 @ [DeviceClose]"
    by (auto simp: run_device_def Let_def log_event_def split: sum.splits)
  then show ?thesis
  proof
    assume "events st' = events st3"
    with ext fl show ?thesis
      by (intro exI[of _ "?hd @ ext"]) (simp add: rm_flags_Cons gp_flags_Cons)
  next
    assume "events st' = events st3 @ [DeviceClose]"
    with ext fl show ?thesis
      by (intro exI[of _ "?hd @ ext @ [DeviceClose]"]) (simp add: rm_flags_Cons gp_flags_Cons)
  qed
qed

text \<open>In \<^verbatim>\<open>extract_text_to_fp\<close> the two flags agree: every resource manager of a run is
  constructed with \<^verbatim>\<open>not disable_caching\<close>, and every call of \<^verbatim>\<open>get_pages\<close> receives the
  same value (lines 71 and 96).\<close>

lemma fp_caching_flags_agree:
  fixes c :: "('s, 'd) collab"
  shows "set (rm_flags (events (snd (extract_text_to_fp c en a)))) \<subseteq> {\<not> disable_caching a}
       \<and> set (gp_flags (events (snd (extract_text_to_fp c en a)))) \<subseteq> {\<not> disable_caching a}"
proof -
  obtain r st where run: "extract_text_to_fp c en a = (r, st)"
    by (cases "extract_text_to_fp c en a")
  from run have "set (rm_flags (events st)) \<subseteq> {\<not> disable_caching a}
               \<and> set (gp_flags (events st)) \<subseteq> {\<not> disable_caching a}"
  proof (cases rule: fp_cases)
    case Legacy
    then show ?thesis by (simp add: init_state_def)
  next
    case (Early e)
    from Early(4) have "set (events st) \<subseteq> {SetLevelDebug, NewResourceManager (\<not> disable_caching a)}
                            \<union> range NewImageWriter \<union> range NewDevice" by auto
    from setup_flags[OF this] show ?thesis by simp
  next
    case (Dispatch e devs)
    from setup_trace_flags[OF Dispatch(5), where a = a] Dispatch(4) show ?thesis by simp
  next
    case Unbound
    from setup_trace_flags[where devs = "[]" and a = a] Unbound(5) show ?thesis by simp
  next
    case (Run pw dv d0 st0)
    from setup_trace_flags[where devs = "[NewDevice dv]" and a = a] Run(4) have s0:
      "set (rm_flags (events st0)) \<subseteq> {\<not> disable_caching a} \<and> gp_flags (events st0) = []"
      by simp
    from run_device_flags[OF Run(8)] obtain ext where
      "events st = events st0 @ ext" "rm_flags ext = []"
      "set (gp_flags ext) \<subseteq> {\<not> disable_caching a}" by blast
    with s0 show ?thesis by simp
  qed
  with run show ?thesis by simp
qed

text \<open>
  Claim C2 fails for \<^verbatim>\<open>extract_text\<close>. Line 123 calls \<^verbatim>\<open>PDFResourceManager()\<close> without the
  flag: in every run that opens its file and builds its device, the one resource manager
  is constructed with the default of PDFResourceManager, whatever the caller's
  \<^verbatim>\<open>caching\<close> is, while \<^verbatim>\<open>get_pages\<close> receives the caller's \<^verbatim>\<open>caching\<close>. The two differ as
  soon as the caller passes the value that is not the default.
\<close>

theorem extract_text_caching_flags:
  fixes c :: "('s, 'd) collab"
  assumes opened: "open_file c f = Inr fp"
      and built: "device_new c (TextConverter (PDFResourceManager (rm_caching_default c))
                     (StringIO_class en) cdc
                     (Some (case la of None \<Rightarrow> LAParams [] | Some l \<Rightarrow> l))
                     (tc_imagewriter_default c)) = Inr d0"
  shows "rm_flags (events (snd (extract_text c en f pw pn mp ca cdc la))) = [rm_caching_default c]
       \<and> gp_flags (events (snd (extract_text c en f pw pn mp ca cdc la))) = [ca]"
proof -
  let ?la = "case la of None \<Rightarrow> LAParams [] | Some l \<Rightarrow> l"
  let ?rm = "PDFResourceManager (rm_caching_default c)"
  let ?dv = "TextConverter ?rm (StringIO_class en) cdc (Some ?la) (tc_imagewriter_default c)"
  let ?hd = "[OpenFile f, NewStringIO (StringIO_class en),
              NewResourceManager (rm_caching_default c), NewDevice ?dv,
              NewInterpreter ?rm ?dv, GetPages pn mp pw ca True]"
  let ?st4 = "\<lparr>events = ?hd, heap = [], dev = Some d0\<rparr>"
  obtain r1 st5 where L: "text_loop c (PDFPageInterpreter ?rm ?dv)
                 (get_pages c fp pn mp pw ca True) d0 ?st4 = (r1, st5)"
    by (cases "text_loop c (PDFPageInterpreter ?rm ?dv) (get_pages c fp pn mp pw ca True) d0 ?st4")
  from text_loop_trace[OF L] obtain ext where ext: "events st5 = ?hd @ ext"
    "set ext \<subseteq> range Yielded \<union> range ProcessPage" by auto
  from page_events_flags[OF ext(2)] have fl: "rm_flags ext = []" "gp_flags ext = []" by auto
  from opened built L have "events (snd (extract_text c en f pw pn mp ca cdc la)) =
      events st5 @ (case r1 of Inl e \<Rightarrow> [] | Inr d \<Rightarrow> [GetValue]) @ [CloseSink, CloseFile]"
    by (simp add: extract_text_def text_body_def construct_device_def log_event_def
          init_state_def Let_def split: sum.splits)
  with ext(1) fl show ?thesis
    by (simp add: rm_flags_Cons gp_flags_Cons split: sum.splits)
qed

text \<open>The failing input \<^verbatim>\<open>extract_text('two.pdf', caching=False)\<close>: the resource manager is
  built with \<open>True\<close>, \<^verbatim>\<open>get_pages\<close> is called with \<open>False\<close>. \<^verbatim>\<open>extract_text_to_fp\<close> with
  \<^verbatim>\<open>disable_caching=True\<close> passes \<open>False\<close> to both.\<close>

theorem extract_text_caching_mismatch:
  "rm_flags (events (snd (extract_text (spec_collab files) py3 ''two.pdf'' [] None 0 False
                            ''utf-8'' None))) = [True]
   \<and> gp_flags (events (snd (extract_text (spec_collab files) py3 ''two.pdf'' [] None 0 False
                            ''utf-8'' None))) = [False]
   \<and> rm_flags (events (snd (extract_text_to_fp (spec_collab files) py3
                ((fp_defaults two_pages StringIO)\<lparr>disable_caching := True\<rparr>)))) = [False]
   \<and> gp_flags (events (snd (extract_text_to_fp (spec_collab files) py3
                ((fp_defaults two_pages StringIO)\<lparr>disable_caching := True\<rparr>)))) = [False]"
proof -
  have h1: "open_file (spec_collab files) ''two.pdf'' = Inr two_pages"
    by (simp add: spec_collab_def files_def)
  have h2: "device_new (spec_collab files)
              (TextConverter (PDFResourceManager (rm_caching_default (spec_collab files)))
                 (StringIO_class py3) ''utf-8''
                 (Some (case None of None \<Rightarrow> LAParams [] | Some l \<Rightarrow> l))
                 (tc_imagewriter_default (spec_collab files)))
            = Inr \<lparr>is_closed = False, written = []\<rparr>"
    by (simp add: spec_collab_def spec_device_new_def)
  from extract_text_caching_flags[OF h1 h2, where pw = "[]" and pn = None and mp = 0 and ca = False]
  show ?thesis by (simp add: run_defs rm_flags_def gp_flags_def)
qed

subsection \<open>What extract_text returns\<close>

text \<open>
  Claim C4 at the failing input \<^verbatim>\<open>extract_text('two.pdf')\<close>: the value returned is the
  content of the in-memory sink, read before the \<^verbatim>\<open>with\<close> statement closes the sink and
  the file; the trace holds no \<open>DeviceClose\<close> and the device is still open when the
  function returns.
\<close>

theorem extract_text_leaves_device_open:
  "extract_text (spec_collab files) py3 ''two.pdf'' [] None 0 True ''utf-8'' None =
     (Inr ''Hello world'',
      \<lparr>events =
         [OpenFile ''two.pdf'', NewStringIO StringIO, NewResourceManager True,
          NewDevice (TextConverter (PDFResourceManager True) StringIO ''utf-8''
                       (Some (LAParams [])) None),
          NewInterpreter (PDFResourceManager True)
            (TextConverter (PDFResourceManager True) StringIO ''utf-8'' (Some (LAParams [])) None),
          GetPages None 0 [] True True,
          Yielded \<lparr>pageid = 0, rotate_attr = 0, contents = ''Hello ''\<rparr>,
          ProcessPage \<lparr>pageid = 0, rotate_attr = 0, contents = ''Hello ''\<rparr>,
          Yielded \<lparr>pageid = 1, rotate_attr = 270, contents = ''world''\<rparr>,
          ProcessPage \<lparr>pageid = 1, rotate_attr = 270, contents = ''world''\<rparr>,
          GetValue, CloseSink, CloseFile],
       heap = [\<lparr>pageid = 0, rotate_attr = 0, contents = ''Hello ''\<rparr>,
               \<lparr>pageid = 1, rotate_attr = 270, contents = ''world''\<rparr>],
       dev = Some \<lparr>is_closed = False, written = ''Hello world''\<rparr>\<rparr>)"
  by (simp add: run_defs)

subsection \<open>extract_text against extract_text_to_fp\<close>

text \<open>
  Claim C8. Let \<^verbatim>\<open>extract_text\<close> be called on a file \<open>f\<close> that opens as the stream \<open>fp\<close>,
  with \<^verbatim>\<open>laparams=None\<close> (so with \<^verbatim>\<open>LAParams()\<close>) and the default \<^verbatim>\<open>caching=True\<close>, and let
  \<^verbatim>\<open>extract_text_to_fp\<close> be called on \<open>fp\<close> with an in-memory sink of the same class,
  \<^verbatim>\<open>output_type='text'\<close>, the same codec, page selection and password,
  \<^verbatim>\<open>laparams=LAParams()\<close> and every other parameter at its default. Then, whenever
  \<^verbatim>\<open>extract_text\<close> returns a string, \<^verbatim>\<open>extract_text_to_fp\<close> completes and its sink holds
  exactly that string; and whenever \<^verbatim>\<open>extract_text\<close> raises, \<^verbatim>\<open>extract_text_to_fp\<close>
  raises the same exception. What is assumed of the code outside the module: the
  defaults \<^verbatim>\<open>caching=True\<close> of PDFResourceManager and \<^verbatim>\<open>imagewriter=None\<close> of
  TextConverter; \<^verbatim>\<open>close\<close> of a TextConverter succeeds and writes nothing
  (\<^verbatim>\<open>extract_text\<close> never calls it); the rotation of every page is in \<open>[0, 360)\<close>, as
  the data model says; and the password reaches the Document Source unchanged (true
  under Python 3).
\<close>

theorem extract_text_agrees_with_fp:
  fixes c :: "('s, 'd) collab"
  assumes opened: "open_file c f = Inr fp"
      and rmd: "rm_caching_default c = True"
      and iwd: "tc_imagewriter_default c = None"
      and pwd: "effective_password c en pw = Inr pw"
      and closes: "\<forall>rm out cd la iw d. \<exists>d'. device_close c (TextConverter rm out cd la iw) d = Inr d'
                     \<and> sink_value c d' = sink_value c d"
      and rots: "\<forall>p \<in> set (seq_pages (get_pages c fp pn mp pw True True)).
                     0 \<le> rotate_attr p \<and> rotate_attr p < 360"
  shows "case fst (extract_text c en f pw pn mp True cdc None) of
           Inr s \<Rightarrow>
             fst (extract_text_to_fp c en
                    ((fp_defaults fp (StringIO_class en))
                       \<lparr>codec := cdc, laparams := Some (LAParams []), maxpages := mp,
                        page_numbers := pn, password := pw\<rparr>)) = Inr ()
             \<and> map_option (sink_value c)
                 (dev (snd (extract_text_to_fp c en
                    ((fp_defaults fp (StringIO_class en))
                       \<lparr>codec := cdc, laparams := Some (LAParams []), maxpages := mp,
                        page_numbers := pn, password := pw\<rparr>)))) = Some s
         | Inl e \<Rightarrow>
             fst (extract_text_to_fp c en
                    ((fp_defaults fp (StringIO_class en))
                       \<lparr>codec := cdc, laparams := Some (LAParams []), maxpages := mp,
                        page_numbers := pn, password := pw\<rparr>)) = Inl e"
proof -
  let ?rm = "PDFResourceManager True"
  let ?dv = "TextConverter ?rm (StringIO_class en) cdc (Some (LAParams [])) None"
  let ?I = "PDFPageInterpreter ?rm ?dv"
  let ?S = "get_pages c fp pn mp pw True True"
  let ?a = "(fp_defaults fp (StringIO_class en))
              \<lparr>codec := cdc, laparams := Some (LAParams []), maxpages := mp,
               page_numbers := pn, password := pw\<rparr>"
  show ?thesis
  proof (cases "device_new c ?dv")
    case (Inl e)
    have B: "fst (extract_text c en f pw pn mp True cdc None) = Inl (Raised e)"
      using opened rmd iwd Inl
      by (simp add: extract_text_def text_body_def construct_device_def Let_def)
    have A: "fst (extract_text_to_fp c en ?a) = Inl (Raised e)"
      using pwd Inl
      by (simp add: extract_text_to_fp_def fp_defaults_def legacy_keyword_given_def
            make_imagewriter_def select_device_def assign_device_def construct_device_def Let_def
            StringIO_class_not_stdout)
    from A B show ?thesis by simp
  next
    case d0: (Inr d0)
    let ?stB = "log_event (GetPages pn mp pw True True)
                 (log_event (NewInterpreter ?rm ?dv)
                   ((log_event (NewDevice ?dv)
                      (log_event (NewResourceManager True)
                        (log_event (NewStringIO (StringIO_class en))
                          (log_event (OpenFile f) init_state))))\<lparr>dev := Some d0\<rparr>))"
    let ?stA = "log_event (GetPages pn mp pw True True)
                 (log_event (NewInterpreter ?rm ?dv)
                   ((log_event (NewDevice ?dv)
                      (log_event (NewResourceManager True) init_state))\<lparr>dev := Some d0\<rparr>))"
    obtain r1 stB1 where LB: "text_loop c ?I ?S d0 ?stB = (r1, stB1)"
      by (cases "text_loop c ?I ?S d0 ?stB")
    obtain rA stA1 where LA: "fp_loop c ?I 0 ?S d0 ?stA = (rA, stA1)"
      by (cases "fp_loop c ?I 0 ?S d0 ?stA")
    have "rA = r1"
      using LA LB loops_agree[OF rots, of c ?I d0 ?stA] text_loop_result[of c ?I ?S d0 ?stA ?stB]
      by simp
    with LA have LA': "fp_loop c ?I 0 ?S d0 ?stA = (r1, stA1)" by simp
    have B: "fst (extract_text c en f pw pn mp True cdc None) =
               (case r1 of Inl e \<Rightarrow> Inl e | Inr d1 \<Rightarrow> Inr (sink_value c d1))"
      using opened rmd iwd d0 LB
      by (simp add: extract_text_def text_body_def construct_device_def Let_def split: sum.splits)
    have A: "extract_text_to_fp c en ?a =
               (case r1 of Inl e \<Rightarrow> (Inl e, stA1)
                | Inr d1 \<Rightarrow>
                    (case device_close c ?dv d1 of
                       Inl e \<Rightarrow> (Inl (Raised e), log_event DeviceClose stA1)
                     | Inr d2 \<Rightarrow> (Inr (), (log_event DeviceClose stA1)\<lparr>dev := Some d2\<rparr>)))"
      using pwd d0 LA'
      by (simp add: extract_text_to_fp_def fp_defaults_def legacy_keyword_given_def
            make_imagewriter_def select_device_def assign_device_def construct_device_def
            run_device_def Let_def StringIO_class_not_stdout split: sum.splits)
    show ?thesis
    proof (cases r1)
      case (Inl e)
      with A B show ?thesis by simp
    next
      case (Inr d1)
      from closes obtain d2 where "device_close c ?dv d1 = Inr d2" "sink_value c d2 = sink_value c d1"
        by blast
      with A B Inr show ?thesis by (simp add: log_event_def)
    qed
  qed
qed

theorem extract_text_agrees_with_fp_witness:
  "fst (extract_text (spec_collab files) py3 ''two.pdf'' [] None 0 True ''utf-8'' None)
     = Inr ''Hello world''
   \<and> fst (extract_text_to_fp (spec_collab files) py3
            ((fp_defaults two_pages (StringIO_class py3))
               \<lparr>codec := ''utf-8'', laparams := Some (LAParams []), maxpages := 0,
                page_numbers := None, password := []\<rparr>)) = Inr ()
   \<and> map_option (sink_value (spec_collab files))
        (dev (snd (extract_text_to_fp (spec_collab files) py3
            ((fp_defaults two_pages (StringIO_class py3))
               \<lparr>codec := ''utf-8'', laparams := Some (LAParams []), maxpages := 0,
                page_numbers := None, password := []\<rparr>)))) = Some ''Hello world''"
proof -
  have h1: "open_file (spec_collab files) ''two.pdf'' = Inr two_pages"
    by (simp add: spec_collab_def files_def)
  have h2: "rm_caching_default (spec_collab files) = True"
    by (simp add: spec_collab_def)
  have h3: "tc_imagewriter_default (spec_collab files) = None"
    by (simp add: spec_collab_def)
  have h4: "effective_password (spec_collab files) py3 [] = Inr []"
    by (simp add: effective_password_def py3_def)
  have h5: "\<forall>rm out cd la iw d. \<exists>d'.
              device_close (spec_collab files) (TextConverter rm out cd la iw) d = Inr d'
              \<and> sink_value (spec_collab files) d' = sink_value (spec_collab files) d"
    by (simp add: spec_collab_def spec_device_close_def)
  have h6: "\<forall>p \<in> set (seq_pages (get_pages (spec_collab files) two_pages None 0 [] True True)).
              0 \<le> rotate_attr p \<and> rotate_attr p < 360"
    by (simp add: spec_collab_def spec_get_pages_def select_pages_def two_pages_def)
  from extract_text_agrees_with_fp[OF h1 h2 h3 h4 h5 h6, where cdc = "''utf-8''"]
  show ?thesis by (simp add: run_defs)
qed

subsection \<open>A wrong password\<close>

text \<open>Lines 77-78 on an interpreter whose \<^verbatim>\<open>sys.stdout\<close> has no \<^verbatim>\<open>buffer\<close>: with the sink
  \<^verbatim>\<open>sys.stdout\<close> the call ends with AttributeError after the text device has been
  constructed, and before the Document Source is consulted.\<close>

lemma stdout_without_buffer:
  "extract_text_to_fp (spec_collab files) (py3\<lparr>stdout_has_buffer := False\<rparr>)
     (fp_defaults locked SysStdout) =
     (Inl (AttributeError ''buffer''),
      \<lparr>events = [NewResourceManager True,
                 NewDevice (TextConverter (PDFResourceManager True) SysStdout ''utf-8'' None None)],
       heap = [], dev = Some \<lparr>is_closed = False, written = []\<rparr>\<rparr>)"
  by (simp add: run_defs)



end
